theory Spec2Isabelle
  imports Complex_Main "HOL-Library.AList" "HOL-Library.Log_Nat"
begin

section \<open>Values of the client code\<close>

text \<open>
  The pages are TypeScript; their interfaces are the data model. A JavaScript string is a
  sequence of UTF-16 code units (\<open>charCodeAt\<close> reads one), so a string is a list of
  code units, and \<open>js\<close> writes a literal. An optional field \<open>f?: T\<close> is \<open>T option\<close>
  with \<open>None\<close> for \<open>undefined\<close>. A number is a double, held as the rational it denotes
  (prices, ratings, coordinates); identifiers, time values and hashes are integers.
\<close>

type_synonym jsstring = "nat list"

definition js :: "string \<Rightarrow> jsstring" where
  "js s = map of_char s"

text \<open>Truthiness of an optional string (\<open>undefined\<close> and \<open>''\<close> are falsy) and of an
  optional number (\<open>undefined\<close> and \<open>0\<close> are falsy), and the operator \<open>a || b\<close> on each.\<close>

definition truthy_s :: "jsstring option \<Rightarrow> bool" where
  "truthy_s a = (case a of None \<Rightarrow> False | Some s \<Rightarrow> s \<noteq> [])"

definition truthy_n :: "rat option \<Rightarrow> bool" where
  "truthy_n a = (case a of None \<Rightarrow> False | Some x \<Rightarrow> x \<noteq> 0)"

definition or_s :: "jsstring option \<Rightarrow> jsstring option \<Rightarrow> jsstring option" where
  "or_s a b = (if truthy_s a then a else b)"

definition or_n :: "rat option \<Rightarrow> rat option \<Rightarrow> rat option" where
  "or_n a b = (if truthy_n a then a else b)"

text \<open>\<open>a || undefined\<close>: a falsy value becomes \<open>undefined\<close>.\<close>

definition or_undefined_s :: "jsstring option \<Rightarrow> jsstring option" where
  "or_undefined_s a = (if truthy_s a then a else None)"

definition or_undefined_n :: "rat option \<Rightarrow> rat option" where
  "or_undefined_n a = (if truthy_n a then a else None)"

text \<open>\<open>a || d\<close> where \<open>d\<close> is a string or a number (a literal, or a value that is
  defined): the result is defined.\<close>

definition or_lit :: "jsstring option \<Rightarrow> jsstring \<Rightarrow> jsstring" where
  "or_lit a d = (case a of None \<Rightarrow> d | Some s \<Rightarrow> if s = [] then d else s)"

definition or_num :: "rat option \<Rightarrow> rat \<Rightarrow> rat" where
  "or_num a d = (case a of None \<Rightarrow> d | Some x \<Rightarrow> if x = 0 then d else x)"

record SearchResult =
  name :: "jsstring option"
  title :: "jsstring option"
  description :: "jsstring option"
  price :: "rat option"
  price_per_night :: "rat option"
  rating :: "rat option"
  xid :: "jsstring option"
  hotel_id :: "jsstring option"
  hotel_key :: "jsstring option"
  sr_id :: "jsstring option"
  image_url :: "jsstring option"
  sr_image :: "jsstring option"
  thumbnail :: "jsstring option"
  photo :: "jsstring option"
  address :: "jsstring option"
  sr_type :: "jsstring option"
  rate :: "rat option"
  reviews :: "rat option"
  best_time :: "jsstring option"
  duration_minutes :: "rat option"
  estimated_cost :: "rat option"
  lat :: "rat option"
  lon :: "rat option"
  link :: "jsstring option"
  currency :: "jsstring option"

text \<open>The object \<open>{}\<close>: every field \<open>undefined\<close>.\<close>

definition empty_result :: SearchResult where
  "empty_result = \<lparr> name = None, title = None, description = None, price = None,
     price_per_night = None, rating = None, xid = None, hotel_id = None, hotel_key = None,
     sr_id = None, image_url = None, sr_image = None, thumbnail = None, photo = None,
     address = None, sr_type = None, rate = None, reviews = None, best_time = None,
     duration_minutes = None, estimated_cost = None, lat = None, lon = None, link = None,
     currency = None \<rparr>"

subsection \<open>Arithmetic on numbers\<close>

text \<open>
  A product, a difference or a quotient of two numbers is the exact result rounded to
  the nearest double: 53 significant bits, a tie going to the even significand.
  \<open>ilog2 x\<close> is the binary exponent of \<open>x\<close>, the integer \<open>k\<close> with
  \<open>2^k \<le> |x| < 2^(k+1)\<close>. The range of the exponent is not modelled: no result the
  pages compute from prices and dates comes near the overflow to \<open>Infinity\<close> (above
  \<open>2^1024\<close>) or the subnormal numbers (below \<open>2^-1022\<close>).
\<close>

definition round_half_even :: "rat \<Rightarrow> int" where
  "round_half_even y =
     (let f = \<lfloor>y\<rfloor>; r = y - of_int f
      in if r < 1 / 2 then f else if 1 / 2 < r then f + 1 else if even f then f else f + 1)"

definition ilog2 :: "rat \<Rightarrow> int" where
  "ilog2 x =
     (case quotient_of \<bar>x\<bar> of
        (a, b) \<Rightarrow> (let t = bitlen a - bitlen b in if 2 powi t \<le> \<bar>x\<bar> then t else t - 1))"

definition to_double :: "rat \<Rightarrow> rat" where
  "to_double x =
     (if x = 0 then 0
      else (let e = ilog2 x - 52 in of_int (round_half_even (x / 2 powi e)) * 2 powi e))"

section \<open>Price normalization (Search page)\<close>

subsection \<open>isHotelLike\<close>

definition isHotelLike :: "SearchResult option \<Rightarrow> bool" where
  "isHotelLike item =
     (case item of
        None \<Rightarrow> False
      | Some r \<Rightarrow>
          truthy_s (hotel_id r) \<or> truthy_s (hotel_key r) \<or> truthy_n (price_per_night r)
          \<or> truthy_n (rating r) \<or> truthy_s (address r))"

subsection \<open>computeNights\<close>

text \<open>
  \<open>new Date(s).getTime()\<close> is the runtime's: the parameter \<open>Date\<close> gives the time value of
  a string in milliseconds, \<open>None\<close> for an invalid date (\<open>NaN\<close>). \<open>Math.round\<close> rounds
  to the nearest integer, a half upwards. The difference of the two time values and its
  quotient by the milliseconds of a day are doubles.
\<close>

definition Math_round :: "rat \<Rightarrow> int" where
  "Math_round x = \<lfloor>x + 1 / 2\<rfloor>"

definition computeNights ::
  "(jsstring \<Rightarrow> int option) \<Rightarrow> jsstring \<Rightarrow> jsstring \<Rightarrow> jsstring option \<Rightarrow> jsstring option \<Rightarrow> int"
where
  "computeNights Date checkIn checkOut ci co =
     (let start = (case ci of None \<Rightarrow> checkIn | Some s \<Rightarrow> s);
          end' = (case co of None \<Rightarrow> checkOut | Some s \<Rightarrow> s)
      in if start = [] \<or> end' = [] then 1
         else (case (Date start, Date end') of
                 (Some inDate, Some outDate) \<Rightarrow>
                   (let diff = Math_round
                                 (to_double (to_double (of_int (outDate - inDate))
                                             / (1000 * 60 * 60 * 24)))
                    in if diff > 0 then diff else 1)
               | _ \<Rightarrow> 1))"

subsection \<open>getFallbackPriceForItem\<close>

definition FALLBACK_LOW :: int where
  "FALLBACK_LOW = 100"

definition FALLBACK_HIGH :: int where
  "FALLBACK_HIGH = 400"

text \<open>\<open>ToInt32\<close>: what \<open>h << 5\<close> and \<open>h & h\<close> do to a number.\<close>

definition toInt32 :: "int \<Rightarrow> int" where
  "toInt32 x = (x + 2147483648) mod 4294967296 - 2147483648"

text \<open>One round of the loop: \<open>h = ((h << 5) + h) + str.charCodeAt(i); h = h & h\<close>.\<close>

definition djb2_step :: "int \<Rightarrow> nat \<Rightarrow> int" where
  "djb2_step h c = toInt32 (toInt32 (h * 32) + h + int c)"

definition djb2 :: "jsstring \<Rightarrow> int" where
  "djb2 str = foldl djb2_step 5381 str"

text \<open>The key expression
  \<open>(item && (item.hotel_key || item.hotel_id || item.id || item.name || item.title)) || ''\<close>.\<close>

definition fallback_key :: "SearchResult option \<Rightarrow> jsstring" where
  "fallback_key item =
     (case item of
        None \<Rightarrow> []
      | Some r \<Rightarrow>
          or_lit (or_s (or_s (or_s (or_s (hotel_key r) (hotel_id r)) (sr_id r)) (name r)) (title r)) [])"

text \<open>
  \<open>JSON.stringify\<close> of a record is the runtime's and depends on the order of the
  object's properties, which a record does not keep: it is the parameter \<open>stringify\<close>,
  a function of the record (two objects with the same fields are taken to list them in
  the same order). \<open>JSON.stringify('')\<close> is the two characters \<open>""\<close>.
\<close>

definition getFallbackPriceForItem ::
  "(SearchResult \<Rightarrow> jsstring) \<Rightarrow> SearchResult option \<Rightarrow> int"
where
  "getFallbackPriceForItem stringify item =
     (let key = fallback_key item;
          str = (if key = [] then (case item of None \<Rightarrow> js ''\"\"'' | Some r \<Rightarrow> stringify r)
                 else key);
          h = djb2 str;
          range = FALLBACK_HIGH - FALLBACK_LOW + 1;
          val = \<bar>h\<bar> mod range
      in FALLBACK_LOW + val)"

subsection \<open>normalizeAttraction, normalizeHotel\<close>

definition normalizeAttraction :: "SearchResult \<Rightarrow> SearchResult" where
  "normalizeAttraction item =
     item \<lparr> image_url :=
              or_undefined_s (or_s (or_s (or_s (image_url item) (sr_image item)) (thumbnail item)) (photo item)),
            xid := or_s (or_s (xid item) (sr_id item)) (xid item),
            name := Some (or_lit (or_s (name item) (title item)) []),
            description := Some (or_lit (or_s (description item) (description item)) []),
            best_time := or_undefined_s (best_time item),
            duration_minutes := or_undefined_n (duration_minutes item),
            estimated_cost := or_undefined_n (or_n (estimated_cost item) (price item)) \<rparr>"

definition normalizeHotel :: "SearchResult \<Rightarrow> SearchResult" where
  "normalizeHotel item =
     item \<lparr> sr_image :=
              or_undefined_s (or_s (or_s (or_s (sr_image item) (thumbnail item)) (image_url item)) (photo item)),
            price_per_night := or_undefined_n (or_n (price_per_night item) (price item)),
            hotel_id := or_undefined_s (or_s (or_s (hotel_id item) (sr_id item)) (hotel_key item)) \<rparr>"

section \<open>Chat poller (Chat page)\<close>

record Message =
  message_id :: int
  sender_id :: int
  content :: jsstring
  created_at :: "jsstring option"

text \<open>The updater passed to \<open>setMessages\<close> in \<open>loadMessages\<close>: from the messages held
  (\<open>prev\<close>) and the fetched ones to the next state.\<close>

definition mergeMessages :: "Message list \<Rightarrow> Message list \<Rightarrow> Message list" where
  "mergeMessages prev newMessages =
     (let existingIds = set (map message_id prev);
          uniqueNewMessages = filter (\<lambda>m. message_id m \<notin> existingIds) newMessages
      in if length uniqueNewMessages = 0 \<and> length prev = length newMessages then prev
         else newMessages)"

text \<open>
  A call of the backend either resolves with the response's \<open>data\<close> or rejects; of a
  rejection the pages read only \<open>err.response?.data?.msg\<close>.
\<close>

datatype 'a reply = Resolved 'a | Rejected "jsstring option"

record chat_state =
  messages :: "Message list"
  selectedConversation :: "int option"

text \<open>\<open>loadMessages\<close>, given what \<open>GET /chat/conversations/<id>/messages\<close> answers; the
  field \<open>messages\<close> of the data may be missing (\<open>response.data.messages || []\<close>).\<close>

definition loadMessages :: "(int \<Rightarrow> Message list option reply) \<Rightarrow> chat_state \<Rightarrow> chat_state" where
  "loadMessages get_messages st =
     (case selectedConversation st of
        None \<Rightarrow> st
      | Some conv \<Rightarrow>
          if conv = 0 then st
          else (case get_messages conv of
                  Rejected _ \<Rightarrow> st
                | Resolved d \<Rightarrow>
                    (let newMessages = (case d of None \<Rightarrow> [] | Some ms \<Rightarrow> ms)
                     in st \<lparr> messages := mergeMessages (messages st) newMessages \<rparr>)))"

section \<open>Local pending-item store (Search page)\<close>

datatype ItemType = flight | hotel | attraction

record PendingItem =
  item_type :: ItemType
  data :: SearchResult
  addedAt :: jsstring

record CurrentItinerary =
  cur_itinerary_id :: int
  cur_id :: "int option"
  cur_title :: jsstring
  cur_origin :: "jsstring option"
  cur_destination :: "jsstring option"
  cur_departure_date :: "jsstring option"
  cur_return_date :: "jsstring option"
  cur_start_date :: "jsstring option"
  cur_end_date :: "jsstring option"

text \<open>Data of the backend that the pages pass on without reading it.\<close>

datatype json =
    JNull
  | JBool bool
  | JNum rat
  | JStr jsstring
  | JArr "json list"
  | JObj "(jsstring \<times> json) list"

text \<open>
  \<open>localStorage\<close> maps a key to a string. Every string the pages store is the
  \<open>JSON.stringify\<close> of a value, and every string they read goes through \<open>JSON.parse\<close>:
  a stored string is represented by what \<open>JSON.parse\<close> makes of it.
  \<^item> \<open>EmptyString\<close>: the string \<open>''\<close>, which is falsy;
  \<^item> \<open>NotJson\<close>: a non-empty string that \<open>JSON.parse\<close> rejects with a \<open>SyntaxError\<close>;
  \<^item> \<open>PendingBlob\<close>, \<open>ItineraryBlob\<close>, \<open>SavedBlob\<close>: the JSON text of an array of
    pending items, of an itinerary object, of a saved-data object;
  \<^item> \<open>OtherJson\<close>: the JSON text of any other value (\<open>null\<close>, a number, an object of
    another shape); it is not an array and has no field of an itinerary.
\<close>

datatype stored =
    EmptyString
  | NotJson
  | OtherJson
  | PendingBlob "PendingItem list"
  | ItineraryBlob CurrentItinerary
  | SavedBlob "jsstring \<rightharpoonup> json"

type_synonym storage = "jsstring \<rightharpoonup> stored"

datatype js_error = SyntaxError | TypeError

text \<open>What \<open>getPendingItems\<close> returns under its type \<open>PendingItem[]\<close>: an array of
  pending items, or a parsed value that is no array.\<close>

datatype parsed_items = Items "PendingItem list" | NotItems

definition STORAGE_KEY :: jsstring where
  "STORAGE_KEY = js ''planit_pending_items''"

definition getPendingItems :: "storage \<Rightarrow> js_error + parsed_items" where
  "getPendingItems ls =
     (case ls STORAGE_KEY of
        None \<Rightarrow> Inr (Items [])
      | Some EmptyString \<Rightarrow> Inr (Items [])
      | Some NotJson \<Rightarrow> Inl SyntaxError
      | Some (PendingBlob xs) \<Rightarrow> Inr (Items xs)
      | Some _ \<Rightarrow> Inr NotItems)"

text \<open>\<open>items.push\<close> on a value that is no array is a \<open>TypeError\<close>.\<close>

definition addPendingItem :: "PendingItem \<Rightarrow> storage \<Rightarrow> js_error + storage" where
  "addPendingItem item ls =
     (case getPendingItems ls of
        Inl e \<Rightarrow> Inl e
      | Inr NotItems \<Rightarrow> Inl TypeError
      | Inr (Items items) \<Rightarrow> Inr (ls(STORAGE_KEY \<mapsto> PendingBlob (items @ [item]))))"

definition clearPendingItems :: "storage \<Rightarrow> storage" where
  "clearPendingItems ls = ls(STORAGE_KEY := None)"

section \<open>The Search page\<close>

datatype SearchType = attractions | hotels

record Itinerary =
  it_itinerary_id :: "int option"
  it_id :: "int option"
  it_title :: "jsstring option"
  it_start_date :: "jsstring option"
  it_end_date :: "jsstring option"
  it_destination :: "jsstring option"

text \<open>The response of the two calls that create an itinerary; only \<open>itinerary_id\<close> is
  read.\<close>

record ApiResponse =
  api_itinerary_id :: "int option"

text \<open>An entry of \<open>items\<close> in the body of the save call.\<close>

record SaveItem =
  save_name :: jsstring
  save_price :: rat
  save_type :: jsstring

text \<open>
  The component's state (\<open>useState\<close>) and \<open>localStorage\<close>. \<open>navigated\<close> records the last
  \<open>navigate(path)\<close>. A handler is run as one sequence: its \<open>set...\<close> calls update the
  record, and what it reads from the state is what the state held when it was called.
  The day, time and duration of the add dialog are left out: only \<open>handleAddToItinerary\<close>
  reads them, on its way to \<open>handleAddToLocalStorage\<close>.
\<close>

record search_state =
  localStorage :: storage
  searchType :: SearchType
  query :: jsstring
  results :: "SearchResult list"
  attractionDetails :: "(jsstring \<times> json) list"
  activitiesMap :: "(jsstring \<times> json) list"
  loading :: bool
  error :: jsstring
  successMessage :: jsstring
  itineraries :: "Itinerary list"
  showAddModal :: bool
  selectedItem :: "SearchResult option"
  selectedItineraryId :: "int option"
  adding :: bool
  checkIn :: jsstring
  checkOut :: jsstring
  pendingItems :: "PendingItem list"
  currentItinerary :: "CurrentItinerary option"
  navigated :: "jsstring option"

text \<open>What the runtime provides: the \<open>Date\<close> parser, \<open>JSON.stringify\<close> of a search
  result, \<open>String.prototype.toLowerCase\<close>, and the clock (\<open>new Date().toISOString()\<close>).\<close>

record runtime =
  Date_getTime :: "jsstring \<Rightarrow> int option"
  JSON_stringify :: "SearchResult \<Rightarrow> jsstring"
  toLowerCase :: "jsstring \<Rightarrow> jsstring"
  now_toISOString :: jsstring

text \<open>
  The backend, one function for each call of the page, from the request to the reply.
  The data of a search may lack its array (\<open>None\<close>); the data of the list of itineraries
  may be empty (\<open>response.data || []\<close>); the data of a save is an object, from its keys
  to their values.
\<close>

record backend =
  get_itineraries :: "Itinerary list option reply"
  post_create_from_flights :: "jsstring \<Rightarrow> jsstring \<Rightarrow> jsstring \<Rightarrow> ApiResponse option reply"
  post_itineraries :: "jsstring \<Rightarrow> ApiResponse option reply"
  post_save :: "int \<Rightarrow> SearchResult list \<Rightarrow> SaveItem list \<Rightarrow> (jsstring \<rightharpoonup> json) reply"
  get_attractions_serp :: "jsstring \<Rightarrow> SearchResult list option reply"
  get_hotels :: "jsstring \<Rightarrow> jsstring \<Rightarrow> jsstring \<Rightarrow> SearchResult list option reply"

text \<open>
  A handler that can throw: the state it leaves, and the exception if one escaped.
  \<open>Untyped st\<close>: the handler has ended with no exception and has stored in
  \<open>pendingItems\<close> a parsed value that is no array, which the field of the record cannot
  hold; \<open>st\<close> is the state in all its other fields.
\<close>

datatype 's outcome = Done 's | Thrown js_error 's | Untyped 's

subsection \<open>Strings\<close>

text \<open>\<open>String(n)\<close> of an integer (below \<open>10^21\<close>, where JavaScript turns to exponents).\<close>

function String_nat :: "nat \<Rightarrow> jsstring" where
  "String_nat n = (if n < 10 then [48 + n] else String_nat (n div 10) @ [48 + n mod 10])"
  by pat_completeness auto
termination
  by (relation "measure id") auto

declare String_nat.simps [simp del]

definition String_int :: "int \<Rightarrow> jsstring" where
  "String_int i = (if i < 0 then 45 # String_nat (nat (- i)) else String_nat (nat i))"

text \<open>White space and line terminators, as \<open>trim\<close> strips them.\<close>

definition is_space :: "nat \<Rightarrow> bool" where
  "is_space c \<longleftrightarrow>
     c \<in> {9, 10, 11, 12, 13, 32, 160, 5760, 8232, 8233, 8239, 8287, 12288, 65279}
     \<or> (8192 \<le> c \<and> c \<le> 8202)"

definition trim :: "jsstring \<Rightarrow> jsstring" where
  "trim s = rev (dropWhile is_space (rev (dropWhile is_space s)))"

definition includes_s :: "jsstring \<Rightarrow> jsstring \<Rightarrow> bool" where
  "includes_s s t = list_ex (\<lambda>i. take (length t) (drop i s) = t) [0 ..< Suc (length s)]"

text \<open>\<open>type.charAt(0).toUpperCase() + type.slice(1)\<close> and the type itself as a string.\<close>

fun capitalized :: "ItemType \<Rightarrow> jsstring" where
  "capitalized flight = js ''Flight''"
| "capitalized hotel = js ''Hotel''"
| "capitalized attraction = js ''Attraction''"

fun type_string :: "ItemType \<Rightarrow> jsstring" where
  "type_string flight = js ''flight''"
| "type_string hotel = js ''hotel''"
| "type_string attraction = js ''attraction''"

subsection \<open>defaultItineraryTitle\<close>

definition defaultItineraryTitle :: "runtime \<Rightarrow> search_state \<Rightarrow> jsstring" where
  "defaultItineraryTitle rt st =
     (if (case currentItinerary st of None \<Rightarrow> False | Some c \<Rightarrow> cur_title c \<noteq> [])
      then cur_title (the (currentItinerary st))
      else
        (let loc = trim (or_lit (or_s (case currentItinerary st of None \<Rightarrow> None
                                       | Some c \<Rightarrow> cur_destination c)
                                      (Some (query st))) [])
         in if loc \<noteq> [] then
              (let locKey = toLowerCase rt loc;
                   sameForLocation =
                     filter (\<lambda>it. includes_s (toLowerCase rt (or_lit (it_title it) [])) locKey
                                  \<or> toLowerCase rt (or_lit (it_destination it) []) = locKey)
                            (itineraries st);
                   base = js ''Trip to '' @ loc
               in base @ js '' '' @ String_nat (length sameForLocation + 1))
            else
              (let count = length (itineraries st)
               in js ''Itinerary '' @ String_nat (count + 1))))"

subsection \<open>handleSearch\<close>

text \<open>The attractions branch after the response has arrived: normalize each entry, drop
  those that look like hotels.\<close>

definition normalized_attractions :: "SearchResult list \<Rightarrow> SearchResult list" where
  "normalized_attractions raw =
     filter (\<lambda>it. \<not> isHotelLike (Some it)) (map normalizeAttraction raw)"

definition handleSearch :: "backend \<Rightarrow> SearchType option \<Rightarrow> search_state \<Rightarrow> search_state" where
  "handleSearch srv forceType st =
     (let activeType = (case forceType of None \<Rightarrow> searchType st | Some t \<Rightarrow> t)
      in if trim (query st) = [] then st
         else
           (let st1 = st \<lparr> loading := True, error := [], successMessage := [] \<rparr>
            in case activeType of
                 attractions \<Rightarrow>
                   (case get_attractions_serp srv (query st) of
                      Rejected msg \<Rightarrow>
                        st1 \<lparr> error := or_lit msg (js ''Search failed''), loading := False \<rparr>
                    | Resolved None \<Rightarrow>
                        st1 \<lparr> results := [],
                              error := js ''No attractions found (server returned unexpected data).'',
                              loading := False \<rparr>
                    | Resolved (Some raw) \<Rightarrow>
                        (let normalized = normalized_attractions raw;
                             st2 = st1 \<lparr> results := normalized, attractionDetails := [],
                                         activitiesMap := [] \<rparr>;
                             st3 = (if length normalized = 0 \<and> length raw > 0
                                    then st2 \<lparr> error := js ''Attractions endpoint returned results that appear to be hotels; none shown.'' \<rparr>
                                    else st2)
                         in st3 \<lparr> loading := False \<rparr>))
               | hotels \<Rightarrow>
                   (let ci = or_s (Some (checkIn st))
                               (case currentItinerary st of None \<Rightarrow> None
                                | Some c \<Rightarrow> cur_departure_date c);
                        co = or_s (Some (checkOut st))
                               (case currentItinerary st of None \<Rightarrow> None
                                | Some c \<Rightarrow> cur_return_date c)
                    in if \<not> truthy_s ci \<or> \<not> truthy_s co then
                         st1 \<lparr> error := js ''Check-in and check-out dates are required (use itinerary dates or enter dates)'',
                               loading := False \<rparr>
                       else
                         (let st2 = st1 \<lparr> checkIn := (if checkIn st = [] then the ci else checkIn st),
                                           checkOut := (if checkOut st = [] then the co else checkOut st) \<rparr>
                          in case get_hotels srv (query st) (the ci) (the co) of
                               Rejected msg \<Rightarrow>
                                 st2 \<lparr> error := or_lit msg (js ''Search failed''), loading := False \<rparr>
                             | Resolved d \<Rightarrow>
                                 (let rawHotels = (case d of None \<Rightarrow> [] | Some hs \<Rightarrow> hs)
                                  in st2 \<lparr> results := map normalizeHotel rawHotels,
                                           loading := False \<rparr>)))))"

subsection \<open>handleAddToLocalStorage\<close>

text \<open>\<open>setPendingItems(getPendingItems())\<close>. A parsed value that is no array goes into the
  state as it is, and nothing is thrown.\<close>

definition reloadPendingItems :: "search_state \<Rightarrow> search_state outcome" where
  "reloadPendingItems st =
     (case getPendingItems (localStorage st) of
        Inl e \<Rightarrow> Thrown e st
      | Inr NotItems \<Rightarrow> Untyped st
      | Inr (Items items) \<Rightarrow> Done (st \<lparr> pendingItems := items \<rparr>))"

text \<open>
  The cost that \<open>handleAddToLocalStorage\<close> stores with the item. For a hotel it is the
  product \<open>Number(perNight || 0) * nights\<close> of two numbers, which is again a number: the
  per-night price as a number holds it, times the nights, rounded.
\<close>

definition estimatedCost :: "runtime \<Rightarrow> search_state \<Rightarrow> SearchResult \<Rightarrow> rat" where
  "estimatedCost rt st selected =
     (if searchType st = hotels then
        (let nights = computeNights (Date_getTime rt) (checkIn st) (checkOut st) None None;
             perNight = or_num (or_n (price_per_night selected) (price selected))
                          (of_int (getFallbackPriceForItem (JSON_stringify rt) (Some selected)))
         in to_double (to_double (or_num (Some perNight) 0) * of_int nights))
      else
        or_num (or_n (price selected) (estimated_cost selected))
          (of_int (getFallbackPriceForItem (JSON_stringify rt) (Some selected))))"



subsection \<open>removePendingItem\<close>

text \<open>
  \<open>splice(index, 1)\<close> removes nothing when the index is past the end; reading \<open>type\<close> of
  the \<open>undefined\<close> element then throws, after the store has been rewritten. The timer that
  clears the message three seconds later is not part of the call.
\<close>

definition removePendingItem :: "nat \<Rightarrow> search_state \<Rightarrow> search_state outcome" where
  "removePendingItem index st =
     (case getPendingItems (localStorage st) of
        Inl e \<Rightarrow> Thrown e st
      | Inr NotItems \<Rightarrow> Thrown TypeError st
      | Inr (Items items) \<Rightarrow>
          (let items' = take index items @ drop (Suc index) items;
               st1 = st \<lparr> localStorage := (localStorage st)(STORAGE_KEY \<mapsto> PendingBlob items'),
                           pendingItems := items' \<rparr>
           in if index < length items then
                Done (st1 \<lparr> successMessage :=
                              capitalized (item_type (items ! index))
                              @ js '' removed from pending items!'' \<rparr>)
              else Thrown TypeError st1))"

subsection \<open>handleSaveAllToItinerary\<close>

definition CURRENT_KEY :: jsstring where
  "CURRENT_KEY = js ''planit_current_itinerary''"

text \<open>\<open>stored ? JSON.parse(stored) : null\<close> for the cached itinerary. A JSON value of
  another shape has none of the fields read below, and the handler treats it as it
  treats \<open>null\<close>.\<close>

definition storedItinerary_of :: "storage \<Rightarrow> js_error + CurrentItinerary option" where
  "storedItinerary_of ls =
     (case ls CURRENT_KEY of
        None \<Rightarrow> Inr None
      | Some EmptyString \<Rightarrow> Inr None
      | Some NotJson \<Rightarrow> Inl SyntaxError
      | Some (ItineraryBlob c) \<Rightarrow> Inr (Some c)
      | Some _ \<Rightarrow> Inr None)"

definition loadItineraries :: "backend \<Rightarrow> search_state \<Rightarrow> search_state" where
  "loadItineraries srv st =
     (case get_itineraries srv of
        Resolved d \<Rightarrow> st \<lparr> itineraries := (case d of None \<Rightarrow> [] | Some its \<Rightarrow> its) \<rparr>
      | Rejected _ \<Rightarrow> st)"

text \<open>The call that creates the itinerary: from the dates of the cached itinerary when
  it has both, else a bare one; \<open>storedItinerary\<close> is the parsed cache.\<close>

definition createResp ::
  "runtime \<Rightarrow> backend \<Rightarrow> search_state \<Rightarrow> CurrentItinerary option \<Rightarrow> ApiResponse option reply"
where
  "createResp rt srv st storedItinerary =
     (case storedItinerary of
        None \<Rightarrow> post_itineraries srv (defaultItineraryTitle rt st)
      | Some c \<Rightarrow>
          if truthy_s (cur_departure_date c) \<and> truthy_s (cur_return_date c)
          then post_create_from_flights srv
                 (the (cur_departure_date c)) (the (cur_return_date c))
                 (or_lit (Some (cur_title c)) (defaultItineraryTitle rt st))
          else post_itineraries srv (defaultItineraryTitle rt st))"

text \<open>
  The block \<open>if (!itineraryId) { ... }\<close>: the itinerary to save into and the state so far
  (\<open>Inr\<close>), or the state in which the handler has ended (\<open>Inl\<close>): a malformed cache is
  caught by the outer \<open>catch\<close>, a failed creation and a creation without an id by the
  inner one.
\<close>

definition ensureItinerary ::
  "runtime \<Rightarrow> backend \<Rightarrow> search_state \<Rightarrow> search_state + (int \<times> search_state)"
where
  "ensureItinerary rt srv st =
     (if (case selectedItineraryId st of None \<Rightarrow> False | Some i \<Rightarrow> i \<noteq> 0)
      then Inr (the (selectedItineraryId st), st)
      else
        (case storedItinerary_of (localStorage st) of
           Inl e \<Rightarrow> Inl (st \<lparr> error := js ''Failed to save items'', adding := False \<rparr>)
         | Inr storedItinerary \<Rightarrow>
             (case createResp rt srv st storedItinerary of
                Rejected msg \<Rightarrow>
                  Inl (st \<lparr> error := or_lit msg (js ''Failed to create itinerary''),
                            adding := False \<rparr>)
              | Resolved d \<Rightarrow>
                  (case (case d of None \<Rightarrow> None | Some r \<Rightarrow> api_itinerary_id r) of
                     None \<Rightarrow>
                       Inl (st \<lparr> error := js ''Failed to create itinerary'', adding := False \<rparr>)
                   | Some itineraryId \<Rightarrow>
                       if itineraryId = 0 then
                         Inl (st \<lparr> error := js ''Failed to create itinerary'', adding := False \<rparr>)
                       else
                         (let title' =
                                or_lit (case storedItinerary of None \<Rightarrow> None
                                        | Some c \<Rightarrow> Some (cur_title c))
                                  (js ''Itinerary '' @ String_nat (length (itineraries st) + 1));
                              current =
                                \<lparr> cur_itinerary_id = itineraryId,
                                  cur_id = None,
                                  cur_title = title',
                                  cur_origin = (case storedItinerary of None \<Rightarrow> None
                                                | Some c \<Rightarrow> cur_origin c),
                                  cur_destination = (case storedItinerary of None \<Rightarrow> None
                                                     | Some c \<Rightarrow> cur_destination c),
                                  cur_departure_date = (case storedItinerary of None \<Rightarrow> None
                                                        | Some c \<Rightarrow> cur_departure_date c),
                                  cur_return_date = (case storedItinerary of None \<Rightarrow> None
                                                     | Some c \<Rightarrow> cur_return_date c),
                                  cur_start_date = None,
                                  cur_end_date = None \<rparr>;
                              st1 = st \<lparr> localStorage :=
                                           (localStorage st)(CURRENT_KEY \<mapsto> ItineraryBlob current),
                                         currentItinerary := Some current,
                                         selectedItineraryId := Some itineraryId \<rparr>
                          in Inr (itineraryId, loadItineraries srv st1))))))"

text \<open>The body of the save call: the flights, and for every other pending item its name,
  price and type.\<close>

definition save_flights :: "PendingItem list \<Rightarrow> SearchResult list" where
  "save_flights pending = map data (filter (\<lambda>item. item_type item = flight) pending)"

definition save_item :: "PendingItem \<Rightarrow> SaveItem" where
  "save_item item =
     (let itemType = type_string (item_type item);
          itemPrice = or_num (or_n (or_n (estimated_cost (data item)) (price (data item)))
                                (price_per_night (data item))) 0
      in \<lparr> save_name = or_lit (or_s (name (data item)) (title (data item))) (js ''Unknown''),
           save_price = or_num (Some itemPrice) 0,
           save_type = itemType \<rparr>)"

definition save_items :: "PendingItem list \<Rightarrow> SaveItem list" where
  "save_items pending = map save_item (filter (\<lambda>item. item_type item \<noteq> flight) pending)"

text \<open>\<open>{ itinerary_id: itineraryId, ...response.data }\<close>.\<close>

definition savedDataPayload :: "int \<Rightarrow> (jsstring \<rightharpoonup> json) \<Rightarrow> (jsstring \<rightharpoonup> json)" where
  "savedDataPayload itineraryId d = [js ''itinerary_id'' \<mapsto> JNum (of_int itineraryId)] ++ d"

definition saved_data_key :: "int \<Rightarrow> jsstring" where
  "saved_data_key itineraryId = js ''planit_saved_data_'' @ String_int itineraryId"

definition handleSaveAllToItinerary ::
  "runtime \<Rightarrow> backend \<Rightarrow> search_state \<Rightarrow> search_state"
where
  "handleSaveAllToItinerary rt srv st =
     (if length (pendingItems st) = 0 then st \<lparr> error := js ''No pending items to save'' \<rparr>
      else
        (case ensureItinerary rt srv (st \<lparr> adding := True, error := [] \<rparr>) of
           Inl ended \<Rightarrow> ended
         | Inr (itineraryId, st1) \<Rightarrow>
             (let flights = save_flights (pendingItems st);
                  items = save_items (pendingItems st)
              in case post_save srv itineraryId flights items of
                   Rejected msg \<Rightarrow>
                     st1 \<lparr> error := or_lit msg (js ''Failed to save items''), adding := False \<rparr>
                 | Resolved d \<Rightarrow>
                     (let payload = savedDataPayload itineraryId d;
                          ls1 = (localStorage st1)(saved_data_key itineraryId \<mapsto> SavedBlob payload);
                          ls2 = ls1(js ''planit_saved_data'' \<mapsto> SavedBlob payload);
                          ls3 = clearPendingItems ls2;
                          ls4 = ls3(CURRENT_KEY := None)
                      in st1 \<lparr> localStorage := ls4,
                               pendingItems := [],
                               currentItinerary := None,
                               successMessage := js ''All items saved to itinerary!'',
                               navigated := Some (js ''/itineraries/'' @ String_int itineraryId),
                               adding := False \<rparr>))))"

section \<open>The specification's words, and concrete inputs\<close>

text \<open>The specification speaks of the first field that is present among \<open>hotel_key\<close>,
  \<open>hotel_id\<close>, \<open>id\<close>, \<open>name\<close> and \<open>title\<close>; the code takes the first that is truthy.\<close>

definition spec_first_present_key :: "SearchResult \<Rightarrow> jsstring option" where
  "spec_first_present_key r =
     (case filter (\<lambda>f. f \<noteq> None) [hotel_key r, hotel_id r, sr_id r, name r, title r] of
        [] \<Rightarrow> None
      | f # _ \<Rightarrow> f)"

definition hotel_h1 :: SearchResult where
  "hotel_h1 = empty_result \<lparr> hotel_key := Some (js ''h1''), price_per_night := Some 100 \<rparr>"

definition named_h1 :: SearchResult where
  "named_h1 = empty_result \<lparr> name := Some (js ''h1''), rating := Some 4,
                              address := Some (js ''1 Rue X'') \<rparr>"

text \<open>The time values of two dates, as \<open>new Date('2024-01-01').getTime()\<close> gives them.\<close>

definition iso_dates :: "jsstring \<Rightarrow> int option" where
  "iso_dates s =
     (if s = js ''2024-01-01'' then Some 1704067200000
      else if s = js ''2024-01-04'' then Some 1704326400000
      else None)"

text \<open>A record whose only identifier field is present and empty, \<open>{"hotel_key":""}\<close>.\<close>

definition empty_key_entry :: SearchResult where
  "empty_key_entry = empty_result \<lparr> hotel_key := Some [] \<rparr>"

text \<open>An entry that carries an address and a per-night price, both falsy.\<close>

definition empty_address_entry :: SearchResult where
  "empty_address_entry = empty_result \<lparr> name := Some (js ''Louvre''), address := Some [],
                                         price_per_night := Some 0 \<rparr>"

text \<open>A backend that rejects every call, a page that has just been opened, and a chat
  message.\<close>

definition no_backend :: backend where
  "no_backend = \<lparr> get_itineraries = Rejected None,
                  post_create_from_flights = (\<lambda>d r t. Rejected None),
                  post_itineraries = (\<lambda>t. Rejected None),
                  post_save = (\<lambda>i fs is. Rejected None),
                  get_attractions_serp = (\<lambda>q. Rejected None),
                  get_hotels = (\<lambda>q ci co. Rejected None) \<rparr>"

definition fresh_state :: search_state where
  "fresh_state = \<lparr> localStorage = Map.empty, searchType = hotels, query = [], results = [],
                   attractionDetails = [], activitiesMap = [], loading = False, error = [],
                   successMessage = [], itineraries = [], showAddModal = False,
                   selectedItem = None, selectedItineraryId = None, adding = False,
                   checkIn = [], checkOut = [], pendingItems = [], currentItinerary = None,
                   navigated = None \<rparr>"

definition msg :: "int \<Rightarrow> Message" where
  "msg i = \<lparr> message_id = i, sender_id = 7, content = js ''hi'', created_at = None \<rparr>"

text \<open>A pending hotel whose record carries a per-night price of 100 and no other
  price; a runtime that knows the two dates; a page with a stay of three nights and
  itinerary 1 selected.\<close>

definition pending_h1 :: PendingItem where
  "pending_h1 = \<lparr> item_type = hotel, data = hotel_h1, addedAt = js ''2024-01-01T00:00:00.000Z'' \<rparr>"

definition iso_runtime :: runtime where
  "iso_runtime = \<lparr> Date_getTime = iso_dates, JSON_stringify = (\<lambda>r. js ''{}''),
                   toLowerCase = (\<lambda>s. s), now_toISOString = js ''2024-01-01T00:00:00.000Z'' \<rparr>"

text \<open>A backend whose save call accepts a body only when its items have the given prices.\<close>

definition price_probe :: "rat list \<Rightarrow> backend" where
  "price_probe ps =
     no_backend \<lparr> post_save := (\<lambda>i fs is. if map save_price is = ps then Resolved Map.empty
                                         else Rejected None) \<rparr>"

definition three_nights_state :: search_state where
  "three_nights_state =
     fresh_state \<lparr> checkIn := js ''2024-01-01'', checkOut := js ''2024-01-04'',
                   selectedItineraryId := Some 1 \<rparr>"

section \<open>Properties of the fallback price\<close>

lemma mod_301_le: "(x::int) mod 301 \<le> 300"
  using pos_mod_bound [of 301 x] by simp

lemma fallback_key_first_present:
  "spec_first_present_key r = Some s \<Longrightarrow> s \<noteq> [] \<Longrightarrow> fallback_key (Some r) = s"
  by (auto simp: spec_first_present_key_def fallback_key_def or_s_def truthy_s_def or_lit_def
      split: option.splits if_splits)

text \<open>
  Claim C2, as the code has it. The fallback price lies between 100 and 400 dollars,
  both included, for every item. For a record it is the price \<open>100 + |djb2 key| mod 301\<close>
  of a key that the record fixes: \<open>hotel_key\<close> when that is a non-empty string, else
  \<open>hotel_id\<close> when that is one, else \<open>id\<close>, else \<open>name\<close>, else \<open>title\<close>, and the
  \<open>JSON.stringify\<close> of the whole record when none of the five is a non-empty string. So
  the price is fixed by the five fields and the JSON text of the record: two calls on
  records that agree in these give the same price, whatever else differs.
\<close>

theorem fallback_price_range_and_key:
  fixes r :: SearchResult
  assumes "p = getFallbackPriceForItem stringify (Some r)"
  shows "100 \<le> getFallbackPriceForItem stringify item
       \<and> getFallbackPriceForItem stringify item \<le> 400
       \<and> (\<forall>s. hotel_key r = Some s \<and> s \<noteq> [] \<longrightarrow> p = 100 + \<bar>djb2 s\<bar> mod 301)
       \<and> (\<forall>s. \<not> truthy_s (hotel_key r) \<and> hotel_id r = Some s \<and> s \<noteq> [] \<longrightarrow>
              p = 100 + \<bar>djb2 s\<bar> mod 301)
       \<and> (\<forall>s. \<not> truthy_s (hotel_key r) \<and> \<not> truthy_s (hotel_id r) \<and> sr_id r = Some s \<and> s \<noteq> [] \<longrightarrow>
              p = 100 + \<bar>djb2 s\<bar> mod 301)
       \<and> (\<forall>s. \<not> truthy_s (hotel_key r) \<and> \<not> truthy_s (hotel_id r) \<and> \<not> truthy_s (sr_id r)
              \<and> name r = Some s \<and> s \<noteq> [] \<longrightarrow>
              p = 100 + \<bar>djb2 s\<bar> mod 301)
       \<and> (\<forall>s. \<not> truthy_s (hotel_key r) \<and> \<not> truthy_s (hotel_id r) \<and> \<not> truthy_s (sr_id r)
              \<and> \<not> truthy_s (name r) \<and> title r = Some s \<and> s \<noteq> [] \<longrightarrow>
              p = 100 + \<bar>djb2 s\<bar> mod 301)
       \<and> (\<not> truthy_s (hotel_key r) \<and> \<not> truthy_s (hotel_id r) \<and> \<not> truthy_s (sr_id r)
              \<and> \<not> truthy_s (name r) \<and> \<not> truthy_s (title r) \<longrightarrow>
              p = 100 + \<bar>djb2 (stringify r)\<bar> mod 301)
       \<and> (\<forall>(r' :: SearchResult) stringify'.
              hotel_key r' = hotel_key r \<and> hotel_id r' = hotel_id r \<and> sr_id r' = sr_id r
              \<and> name r' = name r \<and> title r' = title r \<and> stringify' r' = stringify r \<longrightarrow>
              getFallbackPriceForItem stringify' (Some r') = p)"
proof -
  have range: "100 \<le> getFallbackPriceForItem stringify item
       \<and> getFallbackPriceForItem stringify item \<le> 400"
    unfolding getFallbackPriceForItem_def Let_def FALLBACK_LOW_def FALLBACK_HIGH_def
    by (simp add: mod_301_le)
  have p: "p = 100 + \<bar>djb2 (if fallback_key (Some r) = [] then stringify r
                              else fallback_key (Some r))\<bar> mod 301"
    unfolding assms getFallbackPriceForItem_def Let_def FALLBACK_LOW_def FALLBACK_HIGH_def
    by simp
  have k1: "fallback_key (Some r) = s" if "hotel_key r = Some s" "s \<noteq> []" for s
    using that by (simp add: fallback_key_def or_s_def or_lit_def truthy_s_def)
  have k2: "fallback_key (Some r) = s"
    if "\<not> truthy_s (hotel_key r)" "hotel_id r = Some s" "s \<noteq> []" for s
    using that by (simp add: fallback_key_def or_s_def or_lit_def truthy_s_def)
  have k3: "fallback_key (Some r) = s"
    if "\<not> truthy_s (hotel_key r)" "\<not> truthy_s (hotel_id r)" "sr_id r = Some s" "s \<noteq> []" for s
    using that by (simp add: fallback_key_def or_s_def or_lit_def truthy_s_def)
  have k4: "fallback_key (Some r) = s"
    if "\<not> truthy_s (hotel_key r)" "\<not> truthy_s (hotel_id r)" "\<not> truthy_s (sr_id r)"
      "name r = Some s" "s \<noteq> []" for s
    using that by (simp add: fallback_key_def or_s_def or_lit_def truthy_s_def)
  have k5: "fallback_key (Some r) = s"
    if "\<not> truthy_s (hotel_key r)" "\<not> truthy_s (hotel_id r)" "\<not> truthy_s (sr_id r)"
      "\<not> truthy_s (name r)" "title r = Some s" "s \<noteq> []" for s
    using that by (simp add: fallback_key_def or_s_def or_lit_def truthy_s_def)
  have k6: "fallback_key (Some r) = []"
    if "\<not> truthy_s (hotel_key r)" "\<not> truthy_s (hotel_id r)" "\<not> truthy_s (sr_id r)"
      "\<not> truthy_s (name r)" "\<not> truthy_s (title r)"
    using that
    by (auto simp: fallback_key_def or_s_def or_lit_def truthy_s_def split: option.splits)
  have same: "getFallbackPriceForItem stringify' (Some r') = p"
    if "hotel_key r' = hotel_key r" "hotel_id r' = hotel_id r" "sr_id r' = sr_id r"
      "name r' = name r" "title r' = title r" "stringify' r' = stringify r"
    for r' :: SearchResult and stringify'
  proof -
    have "fallback_key (Some r') = fallback_key (Some r)"
      using that by (simp add: fallback_key_def)
    then show ?thesis
      unfolding assms getFallbackPriceForItem_def Let_def using that(6) by simp
  qed
  show ?thesis
  proof (intro conjI allI impI)
    show "100 \<le> getFallbackPriceForItem stringify item"
      and "getFallbackPriceForItem stringify item \<le> 400"
      using range by simp_all
  next
    fix s assume "hotel_key r = Some s \<and> s \<noteq> []"
    then show "p = 100 + \<bar>djb2 s\<bar> mod 301" using p k1 by simp
  next
    fix s assume "\<not> truthy_s (hotel_key r) \<and> hotel_id r = Some s \<and> s \<noteq> []"
    then show "p = 100 + \<bar>djb2 s\<bar> mod 301" using p k2 by simp
  next
    fix s assume "\<not> truthy_s (hotel_key r) \<and> \<not> truthy_s (hotel_id r) \<and> sr_id r = Some s \<and> s \<noteq> []"
    then show "p = 100 + \<bar>djb2 s\<bar> mod 301" using p k3 by simp
  next
    fix s assume "\<not> truthy_s (hotel_key r) \<and> \<not> truthy_s (hotel_id r) \<and> \<not> truthy_s (sr_id r)
              \<and> name r = Some s \<and> s \<noteq> []"
    then show "p = 100 + \<bar>djb2 s\<bar> mod 301" using p k4 by simp
  next
    fix s assume "\<not> truthy_s (hotel_key r) \<and> \<not> truthy_s (hotel_id r) \<and> \<not> truthy_s (sr_id r)
              \<and> \<not> truthy_s (name r) \<and> title r = Some s \<and> s \<noteq> []"
    then show "p = 100 + \<bar>djb2 s\<bar> mod 301" using p k5 by simp
  next
    assume "\<not> truthy_s (hotel_key r) \<and> \<not> truthy_s (hotel_id r) \<and> \<not> truthy_s (sr_id r)
              \<and> \<not> truthy_s (name r) \<and> \<not> truthy_s (title r)"
    then show "p = 100 + \<bar>djb2 (stringify r)\<bar> mod 301" using p k6 by simp
  next
    fix r' :: SearchResult and stringify'
    assume "hotel_key r' = hotel_key r \<and> hotel_id r' = hotel_id r \<and> sr_id r' = sr_id r
              \<and> name r' = name r \<and> title r' = title r \<and> stringify' r' = stringify r"
    then show "getFallbackPriceForItem stringify' (Some r') = p" using same by simp
  qed
qed

theorem fallback_price_range_and_key_witness:
  "getFallbackPriceForItem (\<lambda>r. js ''{}'') (Some hotel_h1) = 311
   \<and> getFallbackPriceForItem (\<lambda>r. js ''{}'') (Some empty_result) = 111
   \<and> getFallbackPriceForItem (\<lambda>r. js ''{}'')
        (Some (hotel_h1 \<lparr> price_per_night := Some 250, address := Some (js ''2 Rue Y'') \<rparr>)) = 311"
proof -
  have h: "hotel_key hotel_h1 = Some (js ''h1'')" "js ''h1'' \<noteq> []"
    by (simp_all add: hotel_h1_def empty_result_def js_def)
  have d1: "100 + \<bar>djb2 (js ''h1'')\<bar> mod 301 = 311"
    by (simp add: js_def djb2_def djb2_step_def toInt32_def)
  have d2: "100 + \<bar>djb2 (js ''{}'')\<bar> mod 301 = 111"
    by (simp add: js_def djb2_def djb2_step_def toInt32_def)
  have e: "\<not> truthy_s (hotel_key empty_result)" "\<not> truthy_s (hotel_id empty_result)"
    "\<not> truthy_s (sr_id empty_result)" "\<not> truthy_s (name empty_result)"
    "\<not> truthy_s (title empty_result)"
    by (simp_all add: empty_result_def truthy_s_def)
  from fallback_price_range_and_key [OF refl, where stringify = "\<lambda>r. js ''{}''" and r = hotel_h1] h d1
  have a: "getFallbackPriceForItem (\<lambda>r. js ''{}'') (Some hotel_h1) = 311"
    by simp
  from fallback_price_range_and_key [OF refl, where stringify = "\<lambda>r. js ''{}''" and r = empty_result] e d2
  have b: "getFallbackPriceForItem (\<lambda>r. js ''{}'') (Some empty_result) = 111"
    by simp
  from fallback_price_range_and_key [OF refl, where stringify = "\<lambda>r. js ''{}''" and r = hotel_h1] a
  have c: "getFallbackPriceForItem (\<lambda>r. js ''{}'')
        (Some (hotel_h1 \<lparr> price_per_night := Some 250, address := Some (js ''2 Rue Y'') \<rparr>)) = 311"
    by simp
  from a b c show ?thesis by simp
qed

text \<open>
  Claim C2, as it is written, fails in its last part: the record \<open>{"hotel_key":""}\<close> has
  an identifier field, and its price, 275, is that of its JSON text and not the 364 of
  the field's value, the empty string.
\<close>

theorem fallback_price_of_empty_key_counterexample:
  "hotel_key empty_key_entry = Some []
   \<and> getFallbackPriceForItem (\<lambda>r. js ''{\"hotel_key\":\"\"}'') (Some empty_key_entry) = 275
   \<and> 100 + \<bar>djb2 (js ''{\"hotel_key\":\"\"}'')\<bar> mod 301 = 275
   \<and> 100 + \<bar>djb2 []\<bar> mod 301 = 364"
  by (simp add: getFallbackPriceForItem_def Let_def fallback_key_def empty_key_entry_def
        empty_result_def or_s_def or_lit_def truthy_s_def FALLBACK_LOW_def FALLBACK_HIGH_def
        js_def djb2_def djb2_step_def toInt32_def)

text \<open>
  Claim C10. Two search results whose first present field among \<open>hotel_key\<close>,
  \<open>hotel_id\<close>, \<open>id\<close>, \<open>name\<close>, \<open>title\<close> is the same non-empty string have the same
  fallback price, whatever their other fields hold and whatever \<open>JSON.stringify\<close>
  would make of them: the price is that of the key.
\<close>

theorem fallback_price_depends_on_key_only:
  assumes "spec_first_present_key r1 = Some s" and "spec_first_present_key r2 = Some s"
    and "s \<noteq> []"
  shows "getFallbackPriceForItem stringify1 (Some r1) = getFallbackPriceForItem stringify2 (Some r2)
         \<and> getFallbackPriceForItem stringify1 (Some r1) = 100 + \<bar>djb2 s\<bar> mod 301"
  using assms
  by (simp add: getFallbackPriceForItem_def Let_def fallback_key_first_present
        FALLBACK_LOW_def FALLBACK_HIGH_def)

theorem fallback_price_depends_on_key_only_witness:
  "spec_first_present_key hotel_h1 = Some (js ''h1'')
   \<and> spec_first_present_key named_h1 = Some (js ''h1'')
   \<and> js ''h1'' \<noteq> []
   \<and> hotel_h1 \<noteq> named_h1
   \<and> getFallbackPriceForItem (\<lambda>r. []) (Some hotel_h1)
       = getFallbackPriceForItem (\<lambda>r. js ''x'') (Some named_h1)"
proof -
  have a: "spec_first_present_key hotel_h1 = Some (js ''h1'')"
    by (simp add: spec_first_present_key_def hotel_h1_def empty_result_def)
  have b: "spec_first_present_key named_h1 = Some (js ''h1'')"
    by (simp add: spec_first_present_key_def named_h1_def empty_result_def)
  have c: "js ''h1'' \<noteq> []" by (simp add: js_def)
  have d: "hotel_h1 \<noteq> named_h1" by (simp add: hotel_h1_def named_h1_def empty_result_def)
  from fallback_price_depends_on_key_only [OF a b c, of "\<lambda>r. []" "\<lambda>r. js ''x''"] a b c d
  show ?thesis by simp
qed

section \<open>Properties of the arithmetic on numbers\<close>

lemma round_half_even_err: "\<bar>of_int (round_half_even y) - y\<bar> \<le> 1 / 2"
proof -
  define r where "r = y - of_int \<lfloor>y\<rfloor>"
  have r: "0 \<le> r" "r < 1" unfolding r_def by linarith+
  have y: "y = of_int \<lfloor>y\<rfloor> + r" unfolding r_def by simp
  consider "r < 1 / 2" | "1 / 2 < r" | "r = 1 / 2" by linarith
  then show ?thesis
  proof cases
    case 1
    then have "round_half_even y = \<lfloor>y\<rfloor>"
      by (simp add: round_half_even_def r_def)
    then show ?thesis using r 1 unfolding r_def by simp
  next
    case 2
    then have "round_half_even y = \<lfloor>y\<rfloor> + 1"
      by (simp add: round_half_even_def r_def)
    then have "of_int (round_half_even y) - y = 1 - r" unfolding r_def by simp
    then show ?thesis using r 2 by simp
  next
    case 3
    then have "round_half_even y = \<lfloor>y\<rfloor> \<or> round_half_even y = \<lfloor>y\<rfloor> + 1"
      by (simp add: round_half_even_def r_def Let_def)
    then have "of_int (round_half_even y) - y = - r \<or> of_int (round_half_even y) - y = 1 - r"
      unfolding r_def by auto
    then show ?thesis using 3 by auto
  qed
qed

lemma round_half_even_of_int [simp]: "round_half_even (of_int m) = m"
  by (simp add: round_half_even_def)

lemma round_half_even_nonpos: "y \<le> 0 \<Longrightarrow> round_half_even y \<le> 0"
proof -
  assume y: "y \<le> 0"
  have f: "of_int \<lfloor>y\<rfloor> \<le> y" by linarith
  then have f0: "\<lfloor>y\<rfloor> \<le> 0" using y by linarith
  show ?thesis
  proof (cases "y - of_int \<lfloor>y\<rfloor> < 1 / 2")
    case True
    then show ?thesis using f0 by (simp add: round_half_even_def)
  next
    case False
    then have "of_int \<lfloor>y\<rfloor> + 1 / 2 \<le> y" by simp
    with y have "(of_int \<lfloor>y\<rfloor> :: rat) < 0" by linarith
    then have "\<lfloor>y\<rfloor> + 1 \<le> 0" by linarith
    then show ?thesis using f0 unfolding round_half_even_def Let_def by auto
  qed
qed

lemma bitlen_bounds_rat:
  assumes "0 < a"
  shows "2 powi (bitlen a - 1) \<le> (of_int a :: rat)" and "(of_int a :: rat) < 2 powi bitlen a"
proof -
  from bitlen_bounds [OF assms]
  have b: "2 ^ nat (bitlen a - 1) \<le> a" "a < 2 ^ nat (bitlen a)" by simp_all
  have ge1: "1 \<le> bitlen a" using assms by (auto simp: bitlen_alt_def)
  have "(2 :: rat) powi (bitlen a - 1) = 2 ^ nat (bitlen a - 1)"
    using ge1 by (simp add: power_int_def)
  also have "\<dots> = of_int (2 ^ nat (bitlen a - 1))" by simp
  also have "\<dots> \<le> of_int a" using b(1) by (simp only: of_int_le_iff)
  finally show "2 powi (bitlen a - 1) \<le> (of_int a :: rat)" .
  have "(of_int a :: rat) < of_int (2 ^ nat (bitlen a))" using b(2) by (simp only: of_int_less_iff)
  also have "\<dots> = 2 ^ nat (bitlen a)" by simp
  also have "\<dots> = 2 powi bitlen a" using ge1 by (simp add: power_int_def)
  finally show "(of_int a :: rat) < 2 powi bitlen a" .
qed

lemma ilog2_bounds:
  assumes "x \<noteq> 0"
  shows "2 powi ilog2 x \<le> \<bar>x\<bar>" and "\<bar>x\<bar> < 2 powi (ilog2 x + 1)"
proof -
  obtain a b where q: "quotient_of \<bar>x\<bar> = (a, b)" by (cases "quotient_of \<bar>x\<bar>")
  have bpos: "0 < b" using q by (rule quotient_of_denom_pos)
  have xab: "\<bar>x\<bar> = of_int a / of_int b" using q by (rule quotient_of_div)
  have xpos: "0 < \<bar>x\<bar>" using assms by simp
  have apos: "0 < a"
  proof (rule ccontr)
    assume "\<not> 0 < a"
    then have "(of_int a :: rat) \<le> 0" by simp
    then have "of_int a / of_int b \<le> (0 :: rat)" using bpos by (simp add: divide_le_0_iff)
    with xab xpos show False by simp
  qed
  define t where "t = bitlen a - bitlen b"
  have B: "(0 :: rat) < of_int b" using bpos by simp
  have up: "\<bar>x\<bar> < 2 powi (t + 1)"
  proof -
    have "of_int a < (2 :: rat) powi bitlen a" using apos by (rule bitlen_bounds_rat)
    also have "\<dots> = 2 powi (t + 1) * 2 powi (bitlen b - 1)"
      unfolding t_def by (simp flip: power_int_add)
    also have "\<dots> \<le> 2 powi (t + 1) * of_int b"
      using bitlen_bounds_rat(1) [OF bpos] by (intro mult_left_mono) simp_all
    finally show ?thesis unfolding xab using B by (simp add: pos_divide_less_eq)
  qed
  have lo: "2 powi (t - 1) \<le> \<bar>x\<bar>"
  proof -
    have "2 powi (t - 1) * of_int b \<le> 2 powi (t - 1) * (2 :: rat) powi bitlen b"
      using bitlen_bounds_rat(2) [OF bpos] by (intro mult_left_mono) simp_all
    also have "\<dots> = 2 powi (bitlen a - 1)"
      unfolding t_def by (simp flip: power_int_add)
    also have "\<dots> \<le> of_int a" using apos by (rule bitlen_bounds_rat)
    finally show ?thesis unfolding xab using B by (simp add: pos_le_divide_eq)
  qed
  have il: "ilog2 x = (if 2 powi t \<le> \<bar>x\<bar> then t else t - 1)"
    unfolding ilog2_def q t_def by (simp add: Let_def)
  show "2 powi ilog2 x \<le> \<bar>x\<bar>" using lo unfolding il by simp
  show "\<bar>x\<bar> < 2 powi (ilog2 x + 1)" using up unfolding il by auto
qed

lemma ilog2_less:
  assumes "x \<noteq> 0" and "\<bar>x\<bar> < 2 powi k"
  shows "ilog2 x < k"
proof (rule ccontr)
  assume "\<not> ilog2 x < k"
  then have "k \<le> ilog2 x" by simp
  then have "(2 :: rat) powi k \<le> 2 powi ilog2 x" by (intro power_int_increasing) simp_all
  with ilog2_bounds(1) [OF assms(1)] assms(2) show False by linarith
qed

lemma ilog2_le:
  assumes "x \<noteq> 0" and "\<bar>x\<bar> \<le> 2 powi k"
  shows "ilog2 x \<le> k"
proof (rule ccontr)
  assume "\<not> ilog2 x \<le> k"
  then have "k + 1 \<le> ilog2 x" by simp
  then have "(2 :: rat) powi (k + 1) \<le> 2 powi ilog2 x" by (intro power_int_increasing) simp_all
  moreover have "(2 :: rat) powi k < 2 powi (k + 1)" by (intro power_int_strict_increasing) simp_all
  ultimately show False using ilog2_bounds(1) [OF assms(1)] assms(2) by linarith
qed

lemma to_double_err:
  assumes "x \<noteq> 0"
  shows "\<bar>to_double x - x\<bar> \<le> 2 powi (ilog2 x - 53)"
proof -
  define e where "e = ilog2 x - 52"
  define m where "m = round_half_even (x / 2 powi e)"
  have p: "(0 :: rat) < 2 powi e" by simp
  have "to_double x - x = (of_int m - x / 2 powi e) * 2 powi e"
    using assms p unfolding to_double_def e_def m_def Let_def by (simp add: algebra_simps)
  then have "\<bar>to_double x - x\<bar> = \<bar>of_int m - x / 2 powi e\<bar> * 2 powi e"
    using p by (simp add: abs_mult)
  also have "\<dots> \<le> (1 / 2) * 2 powi e"
    unfolding m_def using p by (intro mult_right_mono round_half_even_err) simp
  also have "\<dots> = 2 powi (e - 1)"
    by (simp add: power_int_diff)
  finally show ?thesis unfolding e_def by simp
qed

lemma to_double_exact:
  assumes "x / 2 powi (ilog2 x - 52) = of_int m"
  shows "to_double x = x"
proof (cases "x = 0")
  case True then show ?thesis by (simp add: to_double_def)
next
  case False
  have p: "(2 :: rat) powi (ilog2 x - 52) \<noteq> 0" by simp
  have "to_double x = of_int m * 2 powi (ilog2 x - 52)"
    using False assms by (simp add: to_double_def Let_def)
  also have "\<dots> = x" using assms p by (simp add: field_simps)
  finally show ?thesis .
qed

lemma to_double_nonpos: "x \<le> 0 \<Longrightarrow> to_double x \<le> 0"
proof -
  assume x: "x \<le> 0"
  have "x / 2 powi (ilog2 x - 52) \<le> 0" using x by (simp add: divide_le_0_iff)
  then have "round_half_even (x / 2 powi (ilog2 x - 52)) \<le> 0" by (rule round_half_even_nonpos)
  then have "(of_int (round_half_even (x / 2 powi (ilog2 x - 52))) :: rat) * 2 powi (ilog2 x - 52) \<le> 0"
    by (simp add: mult_le_0_iff)
  then show ?thesis by (simp add: to_double_def Let_def)
qed

lemma to_double_scaled_int:
  assumes "x \<noteq> 0" and "x * 2 ^ j = of_int m" and "ilog2 x - 52 + int j \<le> 0"
  shows "to_double x = x"
proof -
  define e where "e = ilog2 x - 52"
  define i where "i = nat (- (e + int j))"
  have ei: "- e = int j + int i" using assms(3) unfolding e_def i_def by simp
  have "x / 2 powi e = x * 2 powi (- e)"
    by (simp add: power_int_minus field_simps)
  also have "\<dots> = x * (2 powi int j * 2 powi int i)"
    unfolding ei by (simp add: power_int_add)
  also have "\<dots> = (x * 2 ^ j) * 2 ^ i" by simp
  also have "\<dots> = of_int (m * 2 ^ i)" unfolding assms(2) by simp
  finally show ?thesis unfolding e_def by (rule to_double_exact)
qed

lemma to_double_of_int:
  assumes "\<bar>m\<bar> \<le> 2 ^ 53"
  shows "to_double (of_int m) = of_int m"
proof (cases "m = 0")
  case True then show ?thesis by (simp add: to_double_def)
next
  case False
  then have nz: "(of_int m :: rat) \<noteq> 0" by simp
  have "\<bar>of_int m :: rat\<bar> = of_int \<bar>m\<bar>" by simp
  also have "\<dots> \<le> of_int (2 ^ 53)" using assms by (simp only: of_int_le_iff)
  finally have le: "\<bar>of_int m :: rat\<bar> \<le> 2 powi 53" by simp
  have "ilog2 (of_int m) \<le> 53" using nz le by (rule ilog2_le)
  then consider "ilog2 (of_int m) \<le> 52" | "ilog2 (of_int m) = 53" by linarith
  then show ?thesis
  proof cases
    case 1
    show ?thesis
      by (rule to_double_scaled_int [where j = 0 and m = m]) (use nz 1 in simp_all)
  next
    case 2
    from ilog2_bounds(1) [OF nz] 2 have "(2 :: rat) powi 53 \<le> \<bar>of_int m\<bar>" by simp
    with le have "\<bar>of_int m :: rat\<bar> = 2 ^ 53" by simp
    then have "(of_int \<bar>m\<bar> :: rat) = of_int (2 ^ 53)" by simp
    then have "\<bar>m\<bar> = 2 ^ 53" by (simp only: of_int_eq_iff)
    then have m: "m = 2 ^ 53 \<or> m = - (2 ^ 53)" by linarith
    have "(of_int m :: rat) / 2 powi (ilog2 (of_int m) - 52) = of_int (m div 2)"
      using m 2 by auto
    then show ?thesis by (rule to_double_exact)
  qed
qed

lemma to_double_half_int:
  assumes "\<bar>m\<bar> < 2 ^ 53"
  shows "to_double (of_int m / 2) = of_int m / 2"
proof (cases "m = 0")
  case True then show ?thesis by (simp add: to_double_def)
next
  case False
  then have nz: "(of_int m / 2 :: rat) \<noteq> 0" by simp
  have "\<bar>of_int m :: rat\<bar> = of_int \<bar>m\<bar>" by simp
  also have "\<dots> < of_int (2 ^ 53)" using assms by (simp only: of_int_less_iff)
  finally have "\<bar>of_int m / 2 :: rat\<bar> < 2 powi 52" by simp
  with nz have "ilog2 (of_int m / 2) < 52" by (rule ilog2_less)
  then show ?thesis
    by (intro to_double_scaled_int [where j = 1 and m = m]) (use nz in simp_all)
qed


lemma Math_round_days_double:
  assumes "\<bar>d\<bar> \<le> 2 ^ 53"
  shows "Math_round (to_double (of_int d / 86400000)) = (d + 43200000) div 86400000"
proof -
  define k where "k = (d + 43200000) div 86400000"
  define r where "r = (d + 43200000) mod 86400000"
  define q :: rat where "q = of_int d / 86400000"
  have dk: "86400000 * k + r = d + 43200000"
    unfolding k_def r_def by (rule mult_div_mod_eq)
  have r: "0 \<le> r" "r < 86400000" unfolding r_def by simp_all
  have "of_int d = (86400000 * of_int k + of_int r - 43200000 :: rat)"
  proof -
    have "d = 86400000 * k + r - 43200000" using dk by simp
    then have "(of_int d :: rat) = of_int (86400000 * k + r - 43200000)" by simp
    then show ?thesis by simp
  qed
  then have qk: "q = of_int k - 1 / 2 + of_int r / 86400000"
    unfolding q_def by (simp add: field_simps)
  have dabs: "\<bar>of_int d :: rat\<bar> \<le> 2 ^ 53"
  proof -
    have "\<bar>of_int d :: rat\<bar> = of_int \<bar>d\<bar>" by simp
    also have "\<dots> \<le> of_int (2 ^ 53)" using assms by (simp only: of_int_le_iff)
    finally show ?thesis by simp
  qed
  have qabs: "\<bar>q\<bar> < 2 powi 27"
  proof -
    have "\<bar>q\<bar> = \<bar>of_int d\<bar> / 86400000" unfolding q_def by simp
    also have "\<dots> \<le> 2 ^ 53 / 86400000" using dabs by (simp add: divide_right_mono)
    also have "\<dots> < 2 powi 27" by simp
    finally show ?thesis .
  qed
  have goal: "of_int k - 1 / 2 \<le> to_double q \<and> to_double q < of_int k + 1 / 2"
  proof (cases "r = 0")
    case True
    then have q2: "q = of_int (2 * k - 1) / 2" using qk by (simp add: field_simps)
    have "\<bar>of_int (2 * k - 1) :: rat\<bar> < 2 ^ 53"
    proof -
      have "\<bar>of_int (2 * k - 1) :: rat\<bar> = 2 * \<bar>q\<bar>" unfolding q2 by simp
      also have "\<dots> < 2 * 2 powi 27" using qabs by simp
      also have "\<dots> \<le> 2 ^ 53" by simp
      finally show ?thesis .
    qed
    then have "(of_int \<bar>2 * k - 1\<bar> :: rat) < of_int (2 ^ 53)" by simp
    then have "\<bar>2 * k - 1\<bar> < 2 ^ 53" by (simp only: of_int_less_iff)
    then have "to_double q = q" unfolding q2 by (rule to_double_half_int)
    then show ?thesis using qk True by simp
  next
    case False
    then have r1: "1 \<le> r" using r by simp
    show ?thesis
    proof (cases "q = 0")
      case True
      then have "to_double q = 0" by (simp add: to_double_def)
      moreover have "of_int k - 1 / 2 \<le> q" "q < of_int k + 1 / 2"
        using qk r by (simp_all add: field_simps)
      ultimately show ?thesis using True by simp
    next
      case nz: False
      have "ilog2 q < 27" using nz qabs by (rule ilog2_less)
      then have "(2 :: rat) powi (ilog2 q - 53) \<le> 2 powi (- 27)"
        by (intro power_int_increasing) simp_all
      with to_double_err [OF nz] have err: "\<bar>to_double q - q\<bar> \<le> 1 / 2 ^ 27"
        by (simp add: power_int_minus field_simps)
      have lo: "of_int k - 1 / 2 + 1 / 86400000 \<le> q"
        using qk r1 by (simp add: field_simps)
      have "of_int r \<le> (86400000 - 1 :: rat)"
      proof -
        have "r \<le> 86400000 - 1" using r by simp
        then have "(of_int r :: rat) \<le> of_int (86400000 - 1)" by (simp only: of_int_le_iff)
        then show ?thesis by simp
      qed
      then have hi: "q \<le> of_int k + 1 / 2 - 1 / 86400000"
        using qk by (simp add: field_simps)
      have e1: "to_double q - q \<le> 1 / 2 ^ 27" and e2: "q - to_double q \<le> 1 / 2 ^ 27"
        using err by (simp_all only: abs_le_iff minus_diff_eq)
      have c: "(1 :: rat) / 2 ^ 27 < 1 / 86400000" by simp
      show ?thesis using e1 e2 c lo hi by linarith
    qed
  qed
  then have "\<lfloor>to_double q + 1 / 2\<rfloor> = k"
    by (intro floor_unique) simp_all
  then show ?thesis unfolding Math_round_def q_def k_def .
qed

section \<open>Properties of the nights computation\<close>

lemma nearest_day: "\<bar>86400000 * ((d + 43200000) div 86400000) - d\<bar> \<le> (43200000 :: int)"
proof -
  define q where "q = (d + 43200000) div 86400000"
  define m where "m = (d + 43200000) mod 86400000"
  have "86400000 * q + m = d + 43200000"
    unfolding q_def m_def by (rule mult_div_mod_eq)
  moreover have "0 \<le> m" "m < 86400000"
    unfolding m_def by simp_all
  ultimately show ?thesis unfolding q_def by linarith
qed

lemma whole_days: "(86400000 * k + 43200000) div 86400000 = (k :: int)"
proof -
  have "(43200000 + 86400000 * k) div 86400000 = k + 43200000 div (86400000 :: int)"
    by (rule div_mult_self2) simp
  then show ?thesis by (simp add: ac_simps)
qed

text \<open>The exact quotient, rounded: \<open>Math.round\<close> of a number of days.\<close>

lemma Math_round_days:
  "Math_round (of_int ms / 86400000) = (ms + 43200000) div 86400000"
proof -
  have "(of_int ms / 86400000 + 1 / 2 :: rat) = of_int (ms + 43200000) / of_int 86400000"
    by (simp add: field_simps)
  then show ?thesis
    unfolding Math_round_def by (simp only: floor_divide_of_int_eq)
qed

text \<open>The days between two time values as the code computes them: when the two are at
  most \<open>2^53\<close> ms apart the doubles give the exactly rounded number of days.\<close>

lemma days_between_double:
  assumes "\<bar>d\<bar> \<le> 2 ^ 53"
  shows "Math_round (to_double (to_double (of_int d) / (1000 * 60 * 60 * 24)))
           = (d + 43200000) div 86400000"
proof -
  have c: "(1000 * 60 * 60 * 24 :: rat) = 86400000" by simp
  show ?thesis
    unfolding c to_double_of_int [OF assms] by (rule Math_round_days_double [OF assms])
qed

lemma days_between_nonpos:
  assumes "d \<le> 0"
  shows "Math_round (to_double (to_double (of_int d) / (1000 * 60 * 60 * 24))) \<le> 0"
proof -
  have "to_double (of_int d) \<le> 0" using assms by (intro to_double_nonpos) simp
  then have "to_double (of_int d) / (1000 * 60 * 60 * 24) \<le> 0"
    by (simp add: divide_le_0_iff)
  then have "to_double (to_double (of_int d) / (1000 * 60 * 60 * 24)) \<le> 0"
    by (rule to_double_nonpos)
  then show ?thesis unfolding Math_round_def by linarith
qed

lemma nights_ge_1: "1 \<le> computeNights D a b c d"
  unfolding computeNights_def Let_def by (simp split: option.splits)

text \<open>
  Claim C6. With \<open>start\<close> and \<open>end'\<close> the two dates that \<open>computeNights\<close> works on (its
  arguments, or the page's check-in and check-out when an argument is missing): the
  result is 1 when either is the empty string and when either is no valid date; for the
  time values \<open>s\<close> and \<open>e\<close> of two valid dates it is 1 when \<open>e \<le> s\<close>. Otherwise, for two
  time values at most \<open>2^53\<close> ms apart (every pair that the date fields of the pages can
  hold), it is the difference in days rounded to the nearest whole number and raised to
  1 at least, which is the rounded difference itself as soon as the end is half a day
  after the start (as for any two different calendar days), and \<open>k\<close> when the two are
  \<open>k\<close> whole days apart. The result is never below 1.
\<close>

theorem computeNights_spec:
  assumes "start = (case ci of None \<Rightarrow> stateIn | Some s \<Rightarrow> s)"
    and "end' = (case co of None \<Rightarrow> stateOut | Some s \<Rightarrow> s)"
    and "nights = computeNights Date stateIn stateOut ci co"
  shows "(start = [] \<or> end' = [] \<longrightarrow> nights = 1)
       \<and> (Date start = None \<or> Date end' = None \<longrightarrow> nights = 1)
       \<and> (\<forall>s e. start \<noteq> [] \<and> end' \<noteq> [] \<and> Date start = Some s \<and> Date end' = Some e \<longrightarrow>
              (e \<le> s \<longrightarrow> nights = 1)
            \<and> (s < e \<and> e - s \<le> 2 ^ 53 \<longrightarrow>
                 nights = max 1 (Math_round (of_int (e - s) / 86400000)))
            \<and> (s + 43200000 \<le> e \<and> e - s \<le> 2 ^ 53 \<longrightarrow>
                 nights = Math_round (of_int (e - s) / 86400000))
            \<and> \<bar>86400000 * Math_round (of_int (e - s) / 86400000) - (e - s)\<bar> \<le> 43200000
            \<and> (\<forall>k. 1 \<le> k \<and> e - s = 86400000 * k \<and> e - s \<le> 2 ^ 53 \<longrightarrow> nights = k))
       \<and> 1 \<le> nights"
proof -
  note r = Math_round_days
  have n1: "start = [] \<or> end' = [] \<Longrightarrow> nights = 1"
    using assms by (auto simp: computeNights_def Let_def)
  have n2: "Date start = None \<or> Date end' = None \<Longrightarrow> nights = 1"
    using assms by (auto simp: computeNights_def Let_def split: option.splits)
  have run: "nights =
      (if 0 < Math_round (to_double (to_double (of_int (e - s)) / (1000 * 60 * 60 * 24)))
       then Math_round (to_double (to_double (of_int (e - s)) / (1000 * 60 * 60 * 24)))
       else 1)"
    if "start \<noteq> []" "end' \<noteq> []" "Date start = Some s" "Date end' = Some e" for s e
    using that assms unfolding computeNights_def Let_def by simp
  have n3: "nights = max 1 ((e - s + 43200000) div 86400000)"
    if "start \<noteq> []" "end' \<noteq> []" "Date start = Some s" "Date end' = Some e"
      "\<bar>e - s\<bar> \<le> 2 ^ 53" for s e
    unfolding run [OF that(1-4)] days_between_double [OF that(5)] by (simp add: max_def)
  have n4: "nights = 1"
    if "start \<noteq> []" "end' \<noteq> []" "Date start = Some s" "Date end' = Some e" "e \<le> s" for s e
  proof -
    have "e - s \<le> 0" using that(5) by simp
    then have "Math_round (to_double (to_double (of_int (e - s)) / (1000 * 60 * 60 * 24))) \<le> 0"
      by (rule days_between_nonpos)
    then show ?thesis unfolding run [OF that(1-4)] by simp
  qed
  have ge: "1 \<le> nights"
    unfolding assms(3) by (rule nights_ge_1)
  show ?thesis
  proof (intro conjI impI allI)
    show "start = [] \<or> end' = [] \<Longrightarrow> nights = 1" by (rule n1)
    show "Date start = None \<or> Date end' = None \<Longrightarrow> nights = 1" by (rule n2)
    show "1 \<le> nights" by (rule ge)
  next
    fix s e
    assume h: "start \<noteq> [] \<and> end' \<noteq> [] \<and> Date start = Some s \<and> Date end' = Some e"
    then have h': "start \<noteq> []" "end' \<noteq> []" "Date start = Some s" "Date end' = Some e"
      by simp_all
    { assume "e \<le> s"
      then show "nights = 1" by (rule n4 [OF h']) }
    { assume "s < e \<and> e - s \<le> 2 ^ 53"
      then have "\<bar>e - s\<bar> \<le> 2 ^ 53" by simp
      from n3 [OF h' this] show "nights = max 1 (Math_round (of_int (e - s) / 86400000))"
        by (simp only: r) }
    { assume a: "s + 43200000 \<le> e \<and> e - s \<le> 2 ^ 53"
      then have "\<bar>e - s\<bar> \<le> 2 ^ 53" by simp
      note n = n3 [OF h' this]
      from a have "86400000 \<le> e - s + 43200000" by simp
      then have "86400000 div 86400000 \<le> (e - s + 43200000) div 86400000"
        by (rule zdiv_mono1) simp
      with n show "nights = Math_round (of_int (e - s) / 86400000)"
        unfolding r by simp }
    show "\<bar>86400000 * Math_round (of_int (e - s) / 86400000) - (e - s)\<bar> \<le> 43200000"
      by (simp only: r nearest_day)
    { fix k :: int
      assume a: "1 \<le> k \<and> e - s = 86400000 * k \<and> e - s \<le> 2 ^ 53"
      then have "\<bar>e - s\<bar> \<le> 2 ^ 53" by simp
      from n3 [OF h' this] a whole_days [of k] show "nights = k" by simp }
  qed
qed

theorem computeNights_spec_witness:
  "computeNights iso_dates (js ''2024-01-01'') (js ''2024-01-04'') None None = 3
   \<and> computeNights iso_dates (js ''2024-01-04'') (js ''2024-01-01'') None None = 1
   \<and> computeNights iso_dates [] (js ''2024-01-04'') None None = 1
   \<and> computeNights iso_dates (js ''2024-01-01'') (js ''tomorrow'') None None = 1"
proof -
  note spec = computeNights_spec [where Date = iso_dates and ci = None and co = None, OF refl refl refl]
  have d1: "iso_dates (js ''2024-01-01'') = Some 1704067200000"
    and d4: "iso_dates (js ''2024-01-04'') = Some 1704326400000"
    and dt: "iso_dates (js ''tomorrow'') = None"
    by (simp_all add: iso_dates_def js_def)
  have ne: "js ''2024-01-01'' \<noteq> []" "js ''2024-01-04'' \<noteq> []"
    by (simp_all add: js_def)
  have "computeNights iso_dates (js ''2024-01-01'') (js ''2024-01-04'') None None = 3"
    using spec [of "js ''2024-01-01''" "js ''2024-01-04''"] d1 d4 ne by simp
  moreover have "computeNights iso_dates (js ''2024-01-04'') (js ''2024-01-01'') None None = 1"
    using spec [of "js ''2024-01-04''" "js ''2024-01-01''"] d1 d4 ne by simp
  moreover have "computeNights iso_dates [] (js ''2024-01-04'') None None = 1"
    using spec [of "[]" "js ''2024-01-04''"] by simp
  moreover have "computeNights iso_dates (js ''2024-01-01'') (js ''tomorrow'') None None = 1"
    using spec [of "js ''2024-01-01''" "js ''tomorrow''"] dt by simp
  ultimately show ?thesis by simp
qed

text \<open>
  Beyond \<open>2^53\<close> ms the doubles show: between the first day that \<open>Date\<close> can hold and a
  time 172328972.49999999 days later, the difference is rounded up to a double that is
  172328972.5 days, and the nights are 172328973, not the 172328972 of the exact
  quotient.
\<close>

lemma computeNights_far_apart:
  assumes "a \<noteq> []" and "b \<noteq> []"
    and "Date a = Some (- 8640000000000000)" and "Date b = Some 6249223223999999"
  shows "computeNights Date a b None None = 172328973"
    and "Math_round (of_int (6249223223999999 - (- 8640000000000000)) / 86400000) = 172328972"
proof -
  have "Math_round (to_double (to_double (of_int 14889223223999999) / 86400000)) = 172328973"
    by code_simp
  then show "computeNights Date a b None None = 172328973"
    using assms by (simp add: computeNights_def Let_def)
  show "Math_round (of_int (6249223223999999 - (- 8640000000000000)) / 86400000) = 172328972"
    unfolding Math_round_days by simp
qed

section \<open>Properties of the attractions search\<close>

lemma isHotelLike_normalizeAttraction:
  "isHotelLike (Some (normalizeAttraction e)) = isHotelLike (Some e)"
  by (simp add: isHotelLike_def normalizeAttraction_def)

lemma normalized_attractions_eq:
  "normalized_attractions raw = map normalizeAttraction (filter (\<lambda>e. \<not> isHotelLike (Some e)) raw)"
  by (induction raw) (simp_all add: normalized_attractions_def isHotelLike_normalizeAttraction)

lemma handleSearch_attractions_results:
  assumes "(case forceType of None \<Rightarrow> searchType st | Some t \<Rightarrow> t) = attractions"
    and "trim (query st) \<noteq> []" and "get_attractions_serp srv (query st) = Resolved (Some raw)"
  shows "results (handleSearch srv forceType st) = normalized_attractions raw"
  using assms by (simp add: handleSearch_def Let_def)

lemma trim_Paris: "trim (js ''Paris'') = js ''Paris''"
  by (simp add: trim_def js_def is_space_def)

lemma Paris_not_empty: "js ''Paris'' \<noteq> []"
  by (simp add: js_def)

text \<open>
  Claim C7, as the code has it. Every attractions search (the attractions tab with no
  argument, as the Search button runs it, or the type forced to attractions) whose
  response carries an array shows the normalized forms of exactly those entries that
  have no truthy \<open>hotel_id\<close>, \<open>hotel_key\<close>, \<open>price_per_night\<close>, \<open>rating\<close> or \<open>address\<close>, in
  the order of the response. So no result shown has one of the five truthy, and an
  entry with a non-zero per-night price, a non-empty address, a non-empty hotel id or
  key, or a non-zero rating is not among the results.
\<close>

theorem attractions_exclude_hotel_like:
  assumes "(case forceType of None \<Rightarrow> searchType st | Some t \<Rightarrow> t) = attractions"
    and "trim (query st) \<noteq> []" and "get_attractions_serp srv (query st) = Resolved (Some raw)"
  shows "results (handleSearch srv forceType st)
           = map normalizeAttraction (filter (\<lambda>e. \<not> isHotelLike (Some e)) raw)
       \<and> (\<forall>r \<in> set (results (handleSearch srv forceType st)).
             \<not> truthy_n (price_per_night r) \<and> \<not> truthy_s (address r)
             \<and> \<not> truthy_s (hotel_id r) \<and> \<not> truthy_s (hotel_key r) \<and> \<not> truthy_n (rating r))
       \<and> (\<forall>e \<in> set raw.
             truthy_n (price_per_night e) \<or> truthy_s (address e) \<or> truthy_s (hotel_id e)
             \<or> truthy_s (hotel_key e) \<or> truthy_n (rating e) \<longrightarrow>
             normalizeAttraction e \<notin> set (results (handleSearch srv forceType st)))"
proof -
  let ?res = "results (handleSearch srv forceType st)"
  have res: "?res = normalized_attractions raw"
    using assms by (rule handleSearch_attractions_results)
  have shown: "\<not> isHotelLike (Some r)" if "r \<in> set ?res" for r
    using that unfolding res normalized_attractions_def by simp
  have a: "?res = map normalizeAttraction (filter (\<lambda>e. \<not> isHotelLike (Some e)) raw)"
    unfolding res by (rule normalized_attractions_eq)
  have b: "\<forall>r \<in> set ?res. \<not> truthy_n (price_per_night r) \<and> \<not> truthy_s (address r)
             \<and> \<not> truthy_s (hotel_id r) \<and> \<not> truthy_s (hotel_key r) \<and> \<not> truthy_n (rating r)"
    using shown by (auto simp: isHotelLike_def)
  have c: "normalizeAttraction e \<notin> set ?res"
    if "truthy_n (price_per_night e) \<or> truthy_s (address e) \<or> truthy_s (hotel_id e)
             \<or> truthy_s (hotel_key e) \<or> truthy_n (rating e)" for e
  proof -
    have "isHotelLike (Some e)"
      using that by (auto simp: isHotelLike_def)
    then have "isHotelLike (Some (normalizeAttraction e))"
      by (simp add: isHotelLike_normalizeAttraction)
    then show ?thesis using shown by blast
  qed
  from a b c show ?thesis by blast
qed

theorem attractions_exclude_hotel_like_witness:
  "results (handleSearch
        (no_backend \<lparr> get_attractions_serp := (\<lambda>q. Resolved (Some [named_h1, empty_result])) \<rparr>)
        None (fresh_state \<lparr> searchType := attractions, query := js ''Paris'' \<rparr>))
      = [normalizeAttraction empty_result]
   \<and> results (handleSearch
        (no_backend \<lparr> get_attractions_serp := (\<lambda>q. Resolved (Some [named_h1, empty_result])) \<rparr>)
        (Some attractions) (fresh_state \<lparr> query := js ''Paris'' \<rparr>))
      = [normalizeAttraction empty_result]
   \<and> truthy_s (address named_h1)"
proof -
  let ?srv = "no_backend \<lparr> get_attractions_serp := (\<lambda>q. Resolved (Some [named_h1, empty_result])) \<rparr>"
  let ?tab = "fresh_state \<lparr> searchType := attractions, query := js ''Paris'' \<rparr>"
  let ?forced = "fresh_state \<lparr> query := js ''Paris'' \<rparr>"
  have t1: "(case None of None \<Rightarrow> searchType ?tab | Some t \<Rightarrow> t) = attractions" by simp
  have t2: "(case Some attractions of None \<Rightarrow> searchType ?forced | Some t \<Rightarrow> t) = attractions"
    by simp
  have q: "trim (query ?tab) \<noteq> []" "trim (query ?forced) \<noteq> []"
    by (simp_all add: trim_Paris Paris_not_empty)
  have g: "get_attractions_serp ?srv (query ?tab) = Resolved (Some [named_h1, empty_result])"
    "get_attractions_serp ?srv (query ?forced) = Resolved (Some [named_h1, empty_result])"
    by simp_all
  have h: "isHotelLike (Some named_h1)" "\<not> isHotelLike (Some empty_result)"
    by (simp_all add: isHotelLike_def named_h1_def empty_result_def truthy_s_def truthy_n_def js_def)
  from attractions_exclude_hotel_like [OF t1 q(1) g(1)]
       attractions_exclude_hotel_like [OF t2 q(2) g(2)] h
  show ?thesis
    by (simp add: named_h1_def truthy_s_def js_def)
qed

text \<open>
  Claim C7, as it is written, fails: an entry that carries an address and a per-night
  price, the one empty and the other zero, is shown among the attractions, by the
  search of the attractions tab as by the search forced to attractions.
\<close>

theorem attractions_keep_empty_address_counterexample:
  "address empty_address_entry \<noteq> None \<and> price_per_night empty_address_entry \<noteq> None
   \<and> results (handleSearch
        (no_backend \<lparr> get_attractions_serp := (\<lambda>q. Resolved (Some [empty_address_entry])) \<rparr>)
        None (fresh_state \<lparr> searchType := attractions, query := js ''Paris'' \<rparr>))
      = [normalizeAttraction empty_address_entry]
   \<and> results (handleSearch
        (no_backend \<lparr> get_attractions_serp := (\<lambda>q. Resolved (Some [empty_address_entry])) \<rparr>)
        (Some attractions) (fresh_state \<lparr> query := js ''Paris'' \<rparr>))
      = [normalizeAttraction empty_address_entry]"
  by (simp add: handleSearch_def Let_def trim_Paris fresh_state_def no_backend_def
        normalized_attractions_def isHotelLike_def normalizeAttraction_def empty_address_entry_def
        empty_result_def truthy_s_def truthy_n_def or_s_def or_n_def or_undefined_s_def
        or_undefined_n_def or_lit_def Paris_not_empty)

section \<open>Properties of the chat poller\<close>

lemma no_unique_new:
  "(filter (\<lambda>m. message_id m \<notin> set (map message_id prev)) new = [])
     = (set (map message_id new) \<subseteq> set (map message_id prev))"
  by (auto simp: filter_empty_conv)

lemma mergeMessages_cases:
  "mergeMessages prev new =
     (if set (map message_id new) \<subseteq> set (map message_id prev) \<and> length prev = length new
      then prev else new)"
  unfolding mergeMessages_def Let_def length_0_conv no_unique_new by simp

text \<open>
  Claim C8, as the code has it. When a poll of the selected conversation returns
  messages, the state is left as it was if the fetch has no identifier that is not held
  already and has as many messages as are held; in every other case the fetched
  sequence replaces the messages held.
\<close>

theorem loadMessages_merge:
  assumes "selectedConversation st = Some conv" and "conv \<noteq> 0"
    and "get_messages conv = Resolved (Some fetched)"
  shows "(set (map message_id fetched) \<subseteq> set (map message_id (messages st))
            \<and> length fetched = length (messages st)
          \<longrightarrow> loadMessages get_messages st = st)
       \<and> (\<not> (set (map message_id fetched) \<subseteq> set (map message_id (messages st))
               \<and> length fetched = length (messages st))
          \<longrightarrow> messages (loadMessages get_messages st) = fetched)"
  using assms by (auto simp: loadMessages_def Let_def mergeMessages_cases)

theorem loadMessages_merge_witness:
  "loadMessages (\<lambda>c. Resolved (Some [msg 1, msg 2]))
       \<lparr> messages = [msg 1, msg 2], selectedConversation = Some 5 \<rparr>
     = \<lparr> messages = [msg 1, msg 2], selectedConversation = Some 5 \<rparr>
   \<and> messages (loadMessages (\<lambda>c. Resolved (Some [msg 1, msg 2, msg 3]))
       \<lparr> messages = [msg 1, msg 2], selectedConversation = Some 5 \<rparr>) = [msg 1, msg 2, msg 3]"
  using loadMessages_merge [of "\<lparr> messages = [msg 1, msg 2], selectedConversation = Some 5 \<rparr>" 5
          "\<lambda>c. Resolved (Some [msg 1, msg 2])" "[msg 1, msg 2]"]
        loadMessages_merge [of "\<lparr> messages = [msg 1, msg 2], selectedConversation = Some 5 \<rparr>" 5
          "\<lambda>c. Resolved (Some [msg 1, msg 2, msg 3])" "[msg 1, msg 2, msg 3]"]
  by (simp add: msg_def)

text \<open>
  Claim C8, as it is written, fails: with messages 1 and 2 held, a fetch that returns
  message 1 alone has no identifier that is new, and yet it replaces the state.
\<close>

theorem loadMessages_replaces_without_new_id_counterexample:
  "set (map message_id [msg 1]) \<subseteq> set (map message_id [msg 1, msg 2])
   \<and> messages (loadMessages (\<lambda>c. Resolved (Some [msg 1]))
        \<lparr> messages = [msg 1, msg 2], selectedConversation = Some 5 \<rparr>) = [msg 1]
   \<and> [msg 1] \<noteq> [msg 1, msg 2]"
  by (simp add: loadMessages_def mergeMessages_def Let_def msg_def)

section \<open>Properties of the pending-item store\<close>

text \<open>
  Claim C3 asks that a malformed stored value reads as the empty sequence. The code
  calls \<open>JSON.parse\<close> with no \<open>try\<close> around it: on a string that is not JSON,
  \<open>getPendingItems\<close> throws, and so does the page when it loads the items; on JSON that
  is no array it returns that value, not the empty sequence.
\<close>

theorem getPendingItems_not_json:
  "getPendingItems (Map.empty(STORAGE_KEY \<mapsto> NotJson)) = Inl SyntaxError
   \<and> getPendingItems (Map.empty(STORAGE_KEY \<mapsto> OtherJson)) = Inr NotItems
   \<and> reloadPendingItems (fresh_state \<lparr> localStorage := Map.empty(STORAGE_KEY \<mapsto> NotJson) \<rparr>)
       = Thrown SyntaxError (fresh_state \<lparr> localStorage := Map.empty(STORAGE_KEY \<mapsto> NotJson) \<rparr>)"
  by (simp add: getPendingItems_def reloadPendingItems_def)

lemma getPendingItems_upd [simp]:
  "getPendingItems (ls(STORAGE_KEY \<mapsto> PendingBlob xs)) = Inr (Items xs)"
  by (simp add: getPendingItems_def)

lemma addPendingItem_Items:
  "getPendingItems ls = Inr (Items items) \<Longrightarrow>
   addPendingItem item ls = Inr (ls(STORAGE_KEY \<mapsto> PendingBlob (items @ [item])))"
  by (simp add: addPendingItem_def)

lemma removePendingItem_last:
  "localStorage st = ls(STORAGE_KEY \<mapsto> PendingBlob (items @ [item])) \<Longrightarrow>
   removePendingItem (length items) st =
     Done (st \<lparr> localStorage := ls(STORAGE_KEY \<mapsto> PendingBlob items),
                 pendingItems := items,
                 successMessage := capitalized (item_type item) @ js '' removed from pending items!'' \<rparr>)"
  by (simp add: removePendingItem_def Let_def)

text \<open>
  Claim C9, as the code has it. When the store can be listed (its key is absent, or
  holds the empty string or an array of items), adding an item and then removing it by
  its position, the last one, succeeds and leaves a store that lists the same items as
  before and differs from the store before in no other key. When the key held an array
  of items the whole store is what it was before the add; when the key was absent it
  now holds the empty array.
\<close>

theorem add_then_remove_roundtrip:
  assumes "getPendingItems (localStorage st) = Inr (Items items)"
    and "ls = (localStorage st)(STORAGE_KEY \<mapsto> PendingBlob (items @ [item]))"
    and "st' = st \<lparr> localStorage := (localStorage st)(STORAGE_KEY \<mapsto> PendingBlob items),
                    pendingItems := items,
                    successMessage := capitalized (item_type item) @ js '' removed from pending items!'' \<rparr>"
  shows "addPendingItem item (localStorage st) = Inr ls
       \<and> removePendingItem (length items) (st \<lparr> localStorage := ls \<rparr>) = Done st'
       \<and> getPendingItems (localStorage st') = getPendingItems (localStorage st)
       \<and> (\<forall>k. k \<noteq> STORAGE_KEY \<longrightarrow> localStorage st' k = localStorage st k)
       \<and> (localStorage st STORAGE_KEY = Some (PendingBlob items) \<longrightarrow> localStorage st' = localStorage st)
       \<and> (localStorage st STORAGE_KEY = None \<longrightarrow>
            items = [] \<and> localStorage st' STORAGE_KEY = Some (PendingBlob []))"
proof -
  have a: "addPendingItem item (localStorage st) = Inr ls"
    using assms(1,2) by (simp add: addPendingItem_Items)
  have b: "removePendingItem (length items) (st \<lparr> localStorage := ls \<rparr>) = Done st'"
    using removePendingItem_last [of "st \<lparr> localStorage := ls \<rparr>" "localStorage st" items item]
    by (simp add: assms(2,3))
  have c: "getPendingItems (localStorage st') = getPendingItems (localStorage st)"
    using assms(1,3) by simp
  have d: "\<forall>k. k \<noteq> STORAGE_KEY \<longrightarrow> localStorage st' k = localStorage st k"
    using assms(3) by simp
  have e: "localStorage st STORAGE_KEY = Some (PendingBlob items) \<longrightarrow> localStorage st' = localStorage st"
    using assms(3) by (auto simp: fun_upd_idem_iff)
  have f: "localStorage st STORAGE_KEY = None \<longrightarrow>
            items = [] \<and> localStorage st' STORAGE_KEY = Some (PendingBlob [])"
    using assms(1,3) by (auto simp: getPendingItems_def)
  from a b c d e f show ?thesis by blast
qed

theorem add_then_remove_roundtrip_witness:
  "addPendingItem pending_h1 (Map.empty(STORAGE_KEY \<mapsto> PendingBlob [pending_h1]))
     = Inr (Map.empty(STORAGE_KEY \<mapsto> PendingBlob [pending_h1, pending_h1]))
   \<and> (case removePendingItem 1 (fresh_state \<lparr> localStorage := Map.empty(STORAGE_KEY \<mapsto> PendingBlob [pending_h1, pending_h1]) \<rparr>) of
         Done st' \<Rightarrow> localStorage st' = Map.empty(STORAGE_KEY \<mapsto> PendingBlob [pending_h1])
       | Thrown e st' \<Rightarrow> False
       | Untyped st' \<Rightarrow> False)"
  using add_then_remove_roundtrip
    [of "fresh_state \<lparr> localStorage := Map.empty(STORAGE_KEY \<mapsto> PendingBlob [pending_h1]) \<rparr>"
        "[pending_h1]" _ pending_h1, OF _ refl refl]
  by simp

text \<open>
  Claim C9, as it is written, fails on the empty store: the key is absent before the
  add, and holds the empty array after the removal.
\<close>

theorem add_then_remove_from_empty_store_counterexample:
  "localStorage fresh_state STORAGE_KEY = None
   \<and> addPendingItem pending_h1 (localStorage fresh_state) = Inr (Map.empty(STORAGE_KEY \<mapsto> PendingBlob [pending_h1]))
   \<and> (case removePendingItem 0 (fresh_state \<lparr> localStorage := Map.empty(STORAGE_KEY \<mapsto> PendingBlob [pending_h1]) \<rparr>) of
         Done st' \<Rightarrow> localStorage st' STORAGE_KEY = Some (PendingBlob [])
       | Thrown e st' \<Rightarrow> False
       | Untyped st' \<Rightarrow> False)"
  by (simp add: fresh_state_def addPendingItem_def getPendingItems_def removePendingItem_def Let_def)

section \<open>Properties of the checkout\<close>

lemma save_item_price_per_night_only:
  assumes "\<not> truthy_n (estimated_cost (data item))" and "\<not> truthy_n (price (data item))"
    and "price_per_night (data item) = Some p"
  shows "save_price (save_item item) = p"
  using assms by (simp add: save_item_def Let_def or_n_def or_num_def truthy_n_def)

lemma save_item_estimated_cost:
  assumes "estimated_cost (data item) = Some c" and "c \<noteq> 0"
  shows "save_price (save_item item) = c"
  using assms by (simp add: save_item_def Let_def or_n_def or_num_def truthy_n_def)

lemma estimatedCost_hotel:
  assumes "searchType st = hotels" and "price_per_night sel = Some p" and "p \<noteq> 0"
  shows "estimatedCost rt st sel
           = to_double (to_double p
               * of_int (computeNights (Date_getTime rt) (checkIn st) (checkOut st) None None))"
  using assms by (simp add: estimatedCost_def Let_def or_n_def or_num_def truthy_n_def)


lemma three_nights:
  "computeNights iso_dates (js ''2024-01-01'') (js ''2024-01-04'') None None = 3"
proof -
  have "iso_dates (js ''2024-01-01'') = Some 1704067200000"
    and "iso_dates (js ''2024-01-04'') = Some 1704326400000"
    and "js ''2024-01-01'' \<noteq> []" and "js ''2024-01-04'' \<noteq> []"
    by (simp_all add: iso_dates_def js_def)
  moreover have "Math_round (to_double (to_double 259200000 / 86400000)) = 3"
    using days_between_double [of 259200000] by simp
  ultimately show ?thesis
    unfolding computeNights_def Let_def by simp
qed

text \<open>The product is rounded as the program rounds it: three nights at 99.99 cost
  299.96999999999997, which is \<open>5277128047743467 / 2 ^ 44\<close>, and not 299.97.\<close>

lemma estimatedCost_rounded:
  "estimatedCost iso_runtime three_nights_state (hotel_h1 \<lparr> price_per_night := Some (9999 / 100) \<rparr>)
     = 5277128047743467 / 17592186044416"
proof -
  have "to_double (to_double (9999 / 100) * 3) = 5277128047743467 / 17592186044416"
    by code_simp
  moreover have "searchType three_nights_state = hotels"
    and "computeNights (Date_getTime iso_runtime) (checkIn three_nights_state)
           (checkOut three_nights_state) None None = 3"
    by (simp_all add: three_nights_state_def fresh_state_def iso_runtime_def three_nights)
  ultimately show ?thesis
    using estimatedCost_hotel [of three_nights_state
            "hotel_h1 \<lparr> price_per_night := Some (9999 / 100) \<rparr>" "9999 / 100" iso_runtime]
    by simp
qed


lemma hotel_h1_facts:
  "price_per_night hotel_h1 = Some 100" "price hotel_h1 = None" "estimated_cost hotel_h1 = None"
  "name hotel_h1 = None" "title hotel_h1 = None"
  by (simp_all add: hotel_h1_def empty_result_def)



lemma CURRENT_KEY_neq_STORAGE_KEY: "CURRENT_KEY \<noteq> STORAGE_KEY"
  by (simp add: CURRENT_KEY_def STORAGE_KEY_def js_def)

lemma saved_data_key_neq:
  "saved_data_key i \<noteq> STORAGE_KEY" "saved_data_key i \<noteq> CURRENT_KEY"
  "js ''planit_saved_data'' \<noteq> STORAGE_KEY" "js ''planit_saved_data'' \<noteq> CURRENT_KEY"
  "saved_data_key i \<noteq> js ''planit_saved_data''"
  by (simp_all add: saved_data_key_def STORAGE_KEY_def CURRENT_KEY_def js_def)

lemma or_lit_not_empty: "d \<noteq> [] \<Longrightarrow> or_lit a d \<noteq> []"
  by (simp add: or_lit_def split: option.splits)

lemma failure_texts_not_empty:
  "js ''Failed to create itinerary'' \<noteq> []" "js ''Failed to save items'' \<noteq> []"
  by (simp_all add: js_def)
lemma defaultItineraryTitle_adding_error:
  "defaultItineraryTitle rt (st \<lparr> adding := a, error := e \<rparr>) = defaultItineraryTitle rt st"
  by (simp add: defaultItineraryTitle_def Let_def cong: if_cong)

lemma createResp_adding_error:
  "createResp rt srv (st \<lparr> adding := a, error := e \<rparr>) sto = createResp rt srv st sto"
  unfolding createResp_def defaultItineraryTitle_adding_error ..

lemma ensureItinerary_selected:
  "selectedItineraryId st = Some i \<Longrightarrow> i \<noteq> 0 \<Longrightarrow> ensureItinerary rt srv st = Inr (i, st)"
  by (simp add: ensureItinerary_def)

lemma ensureItinerary_malformed:
  assumes "\<not> (case selectedItineraryId st of None \<Rightarrow> False | Some i \<Rightarrow> i \<noteq> 0)"
    and "storedItinerary_of (localStorage st) = Inl e"
  shows "ensureItinerary rt srv st
           = Inl (st \<lparr> error := js ''Failed to save items'', adding := False \<rparr>)"
  using assms by (simp add: ensureItinerary_def)

lemma ensureItinerary_rejected:
  assumes "\<not> (case selectedItineraryId st of None \<Rightarrow> False | Some i \<Rightarrow> i \<noteq> 0)"
    and "storedItinerary_of (localStorage st) = Inr sto"
    and "createResp rt srv st sto = Rejected m"
  shows "ensureItinerary rt srv st
           = Inl (st \<lparr> error := or_lit m (js ''Failed to create itinerary''), adding := False \<rparr>)"
  using assms by (simp add: ensureItinerary_def)

lemma ensureItinerary_no_id:
  assumes "\<not> (case selectedItineraryId st of None \<Rightarrow> False | Some i \<Rightarrow> i \<noteq> 0)"
    and "storedItinerary_of (localStorage st) = Inr sto"
    and "createResp rt srv st sto = Resolved d"
    and "(case d of None \<Rightarrow> None | Some r \<Rightarrow> api_itinerary_id r) \<in> {None, Some 0}"
  shows "ensureItinerary rt srv st
           = Inl (st \<lparr> error := js ''Failed to create itinerary'', adding := False \<rparr>)"
  using assms by (auto simp: ensureItinerary_def)

lemma loadItineraries_fields:
  "localStorage (loadItineraries srv st) = localStorage st"
  "pendingItems (loadItineraries srv st) = pendingItems st"
  "error (loadItineraries srv st) = error st"
  "successMessage (loadItineraries srv st) = successMessage st"
  "navigated (loadItineraries srv st) = navigated st"
  "adding (loadItineraries srv st) = adding st"
  by (simp_all add: loadItineraries_def split: reply.splits)

lemma ensureItinerary_Inr:
  assumes "ensureItinerary rt srv st = Inr (i, st1)"
  shows "i \<noteq> 0
       \<and> (\<forall>k. k \<noteq> CURRENT_KEY \<longrightarrow> localStorage st1 k = localStorage st k)
       \<and> pendingItems st1 = pendingItems st \<and> error st1 = error st
       \<and> successMessage st1 = successMessage st \<and> navigated st1 = navigated st
       \<and> adding st1 = adding st"
proof (cases "case selectedItineraryId st of None \<Rightarrow> False | Some i \<Rightarrow> i \<noteq> 0")
  case True
  with assms show ?thesis
    by (auto simp: ensureItinerary_def split: option.splits)
next
  case False
  with assms obtain sto where sto: "storedItinerary_of (localStorage st) = Inr sto"
    by (cases "storedItinerary_of (localStorage st)") (simp_all add: ensureItinerary_def)
  with assms False obtain d where d: "createResp rt srv st sto = Resolved d"
    by (cases "createResp rt srv st sto") (simp_all add: ensureItinerary_def)
  with assms False sto obtain j where j: "(case d of None \<Rightarrow> None | Some r \<Rightarrow> api_itinerary_id r) = Some j"
    by (cases "case d of None \<Rightarrow> None | Some r \<Rightarrow> api_itinerary_id r")
       (simp_all add: ensureItinerary_def)
  from assms False sto d j have nz: "j \<noteq> 0"
    by (auto simp: ensureItinerary_def)
  from assms False sto d j nz show ?thesis
    by (auto simp: ensureItinerary_def Let_def loadItineraries_fields)
qed

lemma handleSave_ended:
  assumes "pendingItems st \<noteq> []"
    and "ensureItinerary rt srv (st \<lparr> adding := True, error := [] \<rparr>) = Inl ended"
  shows "handleSaveAllToItinerary rt srv st = ended"
  using assms by (simp add: handleSaveAllToItinerary_def)

lemma handleSave_rejected:
  assumes "pendingItems st \<noteq> []"
    and "ensureItinerary rt srv (st \<lparr> adding := True, error := [] \<rparr>) = Inr (i, st1)"
    and "post_save srv i (save_flights (pendingItems st)) (save_items (pendingItems st)) = Rejected m"
  shows "handleSaveAllToItinerary rt srv st
           = st1 \<lparr> error := or_lit m (js ''Failed to save items''), adding := False \<rparr>"
  using assms by (simp add: handleSaveAllToItinerary_def)

lemma handleSave_resolved:
  assumes "pendingItems st \<noteq> []"
    and "ensureItinerary rt srv (st \<lparr> adding := True, error := [] \<rparr>) = Inr (i, st1)"
    and "post_save srv i (save_flights (pendingItems st)) (save_items (pendingItems st)) = Resolved d"
  shows "handleSaveAllToItinerary rt srv st
           = st1 \<lparr> localStorage :=
                        ((clearPendingItems
                           ((localStorage st1)
                              (saved_data_key i \<mapsto> SavedBlob (savedDataPayload i d),
                               js ''planit_saved_data'' \<mapsto> SavedBlob (savedDataPayload i d))))
                         (CURRENT_KEY := None)),
                      pendingItems := [],
                      currentItinerary := None,
                      successMessage := js ''All items saved to itinerary!'',
                      navigated := Some (js ''/itineraries/'' @ String_int i),
                      adding := False \<rparr>"
  using assms by (simp add: handleSaveAllToItinerary_def Let_def)

text \<open>
  Claim C4. A commit of a non-empty queue that fails at a step leaves the pending-item
  store and the pending items of the page as they were, shows no success and does not
  navigate, and surfaces an error message that is not empty: the message of the
  server's response when it has one, else the fixed text of the step. The steps that
  fail: the call that creates the itinerary is rejected; it answers without an id; the
  save call is rejected; the cached itinerary is not JSON.
\<close>

theorem checkout_failure_keeps_pending_items:
  assumes "pendingItems st \<noteq> []"
    and "st' = handleSaveAllToItinerary rt srv st"
    and "selected = (case selectedItineraryId st of None \<Rightarrow> False | Some i \<Rightarrow> i \<noteq> 0)"
    and "(\<exists>sto m. \<not> selected \<and> storedItinerary_of (localStorage st) = Inr sto
                  \<and> createResp rt srv st sto = Rejected m
                  \<and> message = or_lit m (js ''Failed to create itinerary''))
       \<or> (\<exists>sto d. \<not> selected \<and> storedItinerary_of (localStorage st) = Inr sto
                  \<and> createResp rt srv st sto = Resolved d
                  \<and> (case d of None \<Rightarrow> None | Some r \<Rightarrow> api_itinerary_id r) \<in> {None, Some 0}
                  \<and> message = js ''Failed to create itinerary'')
       \<or> (\<exists>i st1 m. ensureItinerary rt srv (st \<lparr> adding := True, error := [] \<rparr>) = Inr (i, st1)
                  \<and> post_save srv i (save_flights (pendingItems st)) (save_items (pendingItems st))
                      = Rejected m
                  \<and> message = or_lit m (js ''Failed to save items''))
       \<or> (\<exists>e. \<not> selected \<and> storedItinerary_of (localStorage st) = Inl e
                  \<and> message = js ''Failed to save items'')"
  shows "localStorage st' STORAGE_KEY = localStorage st STORAGE_KEY
       \<and> getPendingItems (localStorage st') = getPendingItems (localStorage st)
       \<and> pendingItems st' = pendingItems st
       \<and> error st' = message \<and> error st' \<noteq> []
       \<and> successMessage st' = successMessage st
       \<and> navigated st' = navigated st
       \<and> adding st' = False"
proof -
  let ?st0 = "st \<lparr> adding := True, error := [] \<rparr>"
  have sel0: "(case selectedItineraryId ?st0 of None \<Rightarrow> False | Some i \<Rightarrow> i \<noteq> 0) = selected"
    using assms(3) by simp
  note run = handleSave_ended [OF assms(1), of rt srv] handleSave_rejected [OF assms(1), of rt srv]
  have key: "localStorage st' STORAGE_KEY = localStorage st STORAGE_KEY
       \<and> pendingItems st' = pendingItems st
       \<and> error st' = message \<and> error st' \<noteq> []
       \<and> successMessage st' = successMessage st
       \<and> navigated st' = navigated st
       \<and> adding st' = False"
    using assms(4)
  proof (elim disjE exE conjE)
    fix sto m
    assume h: "\<not> selected" "storedItinerary_of (localStorage st) = Inr sto"
      "createResp rt srv st sto = Rejected m"
      "message = or_lit m (js ''Failed to create itinerary'')"
    have "ensureItinerary rt srv ?st0
            = Inl (?st0 \<lparr> error := or_lit m (js ''Failed to create itinerary''), adding := False \<rparr>)"
      by (rule ensureItinerary_rejected) (use h sel0 in \<open>simp_all add: createResp_adding_error\<close>)
    then show ?thesis
      using run(1) h(4) assms(2) by (simp add: or_lit_not_empty failure_texts_not_empty)
  next
    fix sto d
    assume h: "\<not> selected" "storedItinerary_of (localStorage st) = Inr sto"
      "createResp rt srv st sto = Resolved d"
      "(case d of None \<Rightarrow> None | Some r \<Rightarrow> api_itinerary_id r) \<in> {None, Some 0}"
      "message = js ''Failed to create itinerary''"
    have "ensureItinerary rt srv ?st0
            = Inl (?st0 \<lparr> error := js ''Failed to create itinerary'', adding := False \<rparr>)"
      by (rule ensureItinerary_no_id [where sto = sto and d = d])
         (use h sel0 in \<open>simp_all add: createResp_adding_error\<close>)
    then show ?thesis
      using run(1) h(5) assms(2) by (simp add: failure_texts_not_empty)
  next
    fix i st1 m
    assume h: "ensureItinerary rt srv ?st0 = Inr (i, st1)"
      "post_save srv i (save_flights (pendingItems st)) (save_items (pendingItems st)) = Rejected m"
      "message = or_lit m (js ''Failed to save items'')"
    from ensureItinerary_Inr [OF h(1)] CURRENT_KEY_neq_STORAGE_KEY
    have "localStorage st1 STORAGE_KEY = localStorage st STORAGE_KEY"
      "pendingItems st1 = pendingItems st" "successMessage st1 = successMessage st"
      "navigated st1 = navigated st"
      by auto
    then show ?thesis
      using run(2) [OF h(1,2)] h(3) assms(2) by (simp add: or_lit_not_empty failure_texts_not_empty)
  next
    fix e
    assume h: "\<not> selected" "storedItinerary_of (localStorage st) = Inl e"
      "message = js ''Failed to save items''"
    have "ensureItinerary rt srv ?st0
            = Inl (?st0 \<lparr> error := js ''Failed to save items'', adding := False \<rparr>)"
      by (rule ensureItinerary_malformed [where e = e]) (use h sel0 in simp_all)
    then show ?thesis
      using run(1) h(3) assms(2) by (simp add: failure_texts_not_empty)
  qed
  then show ?thesis by (auto simp: getPendingItems_def)
qed

theorem checkout_failure_keeps_pending_items_witness:
  "error (handleSaveAllToItinerary iso_runtime no_backend
            (fresh_state \<lparr> pendingItems := [pending_h1] \<rparr>)) = js ''Failed to create itinerary''
   \<and> pendingItems (handleSaveAllToItinerary iso_runtime no_backend
            (fresh_state \<lparr> pendingItems := [pending_h1] \<rparr>)) = [pending_h1]
   \<and> error (handleSaveAllToItinerary iso_runtime (price_probe [300])
            (three_nights_state \<lparr> pendingItems := [pending_h1] \<rparr>)) = js ''Failed to save items''
   \<and> pendingItems (handleSaveAllToItinerary iso_runtime (price_probe [300])
            (three_nights_state \<lparr> pendingItems := [pending_h1] \<rparr>)) = [pending_h1]"
proof -
  let ?a = "fresh_state \<lparr> pendingItems := [pending_h1] \<rparr>"
  let ?b = "three_nights_state \<lparr> pendingItems := [pending_h1] \<rparr>"
  have a1: "pendingItems ?a \<noteq> []" and b1: "pendingItems ?b \<noteq> []" by simp_all
  have a2: "(\<exists>sto m. \<not> False \<and> storedItinerary_of (localStorage ?a) = Inr sto
                  \<and> createResp iso_runtime no_backend ?a sto = Rejected m
                  \<and> js ''Failed to create itinerary'' = or_lit m (js ''Failed to create itinerary''))"
    by (rule exI [of _ None], rule exI [of _ None])
       (simp add: storedItinerary_of_def fresh_state_def createResp_def no_backend_def or_lit_def)
  have a3: "False = (case selectedItineraryId ?a of None \<Rightarrow> False | Some i \<Rightarrow> i \<noteq> 0)"
    by (simp add: fresh_state_def)
  have b2: "(\<exists>i st1 m. ensureItinerary iso_runtime (price_probe [300]) (?b \<lparr> adding := True, error := [] \<rparr>) = Inr (i, st1)
                  \<and> post_save (price_probe [300]) i (save_flights (pendingItems ?b)) (save_items (pendingItems ?b))
                      = Rejected m
                  \<and> js ''Failed to save items'' = or_lit m (js ''Failed to save items''))"
    apply (rule exI [of _ 1], rule exI [of _ "?b \<lparr> adding := True, error := [] \<rparr>"], rule exI [of _ None])
    apply (simp add: ensureItinerary_def three_nights_state_def fresh_state_def price_probe_def
             no_backend_def or_lit_def save_items_def save_item_def pending_h1_def hotel_h1_facts
             Let_def or_n_def or_num_def truthy_n_def)
    done
  from checkout_failure_keeps_pending_items [OF a1 refl a3, where message = "js ''Failed to create itinerary''"] a2
       checkout_failure_keeps_pending_items [OF b1 refl refl, where message = "js ''Failed to save items''"] b2
  show ?thesis by simp
qed

lemma savedDataPayload_keeps_response:
  "d k = Some v \<Longrightarrow> savedDataPayload i d k = Some v"
  by (simp add: savedDataPayload_def map_add_def)

lemma savedDataPayload_itinerary_id:
  "d (js ''itinerary_id'') = None \<Longrightarrow>
   savedDataPayload i d (js ''itinerary_id'') = Some (JNum (of_int i))"
  by (simp add: savedDataPayload_def map_add_def)

text \<open>
  Claim C5. After a commit of a non-empty queue whose save call has succeeded for the
  itinerary \<open>i\<close> (the selected one, or the one just created): the response, with the
  itinerary's id, is stored under the key \<open>planit_saved_data_<i>\<close>; the pending-item
  store is empty and the page holds no pending item; the cached current itinerary is
  gone from the store and from the page; the success message is set, no error is shown,
  and the page navigates to the itinerary.
\<close>

theorem checkout_success_persists_and_clears:
  assumes "pendingItems st \<noteq> []"
    and "ensureItinerary rt srv (st \<lparr> adding := True, error := [] \<rparr>) = Inr (i, st1)"
    and "post_save srv i (save_flights (pendingItems st)) (save_items (pendingItems st)) = Resolved d"
    and "st' = handleSaveAllToItinerary rt srv st"
  shows "localStorage st' (saved_data_key i) = Some (SavedBlob (savedDataPayload i d))
       \<and> (\<forall>k v. d k = Some v \<longrightarrow> savedDataPayload i d k = Some v)
       \<and> (d (js ''itinerary_id'') = None \<longrightarrow>
            savedDataPayload i d (js ''itinerary_id'') = Some (JNum (of_int i)))
       \<and> saved_data_key i = js ''planit_saved_data_'' @ String_int i
       \<and> (\<forall>j. selectedItineraryId st = Some j \<and> j \<noteq> 0 \<longrightarrow> i = j)
       \<and> localStorage st' STORAGE_KEY = None
       \<and> getPendingItems (localStorage st') = Inr (Items [])
       \<and> pendingItems st' = []
       \<and> localStorage st' CURRENT_KEY = None
       \<and> currentItinerary st' = None
       \<and> successMessage st' = js ''All items saved to itinerary!''
       \<and> navigated st' = Some (js ''/itineraries/'' @ String_int i)
       \<and> error st' = [] \<and> adding st' = False"
proof -
  note st' = assms(4) [unfolded handleSave_resolved [OF assms(1,2,3)]]
  have err: "error st1 = []"
    using ensureItinerary_Inr [OF assms(2)] by simp
  have sel: "i = j" if "selectedItineraryId st = Some j" "j \<noteq> 0" for j
    using that assms(2) ensureItinerary_selected [of "st \<lparr> adding := True, error := [] \<rparr>" j rt srv]
    by simp
  have a: "localStorage st' (saved_data_key i) = Some (SavedBlob (savedDataPayload i d))"
    unfolding st' by (simp add: clearPendingItems_def saved_data_key_neq)
  have b: "localStorage st' STORAGE_KEY = None" "localStorage st' CURRENT_KEY = None"
    unfolding st' by (simp_all add: clearPendingItems_def CURRENT_KEY_neq_STORAGE_KEY)
  have c: "getPendingItems (localStorage st') = Inr (Items [])"
    using b(1) by (simp add: getPendingItems_def)
  have e: "pendingItems st' = []" "currentItinerary st' = None"
    "successMessage st' = js ''All items saved to itinerary!''"
    "navigated st' = Some (js ''/itineraries/'' @ String_int i)"
    "error st' = []" "adding st' = False"
    unfolding st' using err by simp_all
  show ?thesis
    using a b c e sel savedDataPayload_keeps_response savedDataPayload_itinerary_id
    by (simp add: saved_data_key_def)
qed

theorem checkout_success_persists_and_clears_witness:
  "localStorage (handleSaveAllToItinerary iso_runtime (price_probe [100])
       (three_nights_state \<lparr> pendingItems := [pending_h1],
                              localStorage := Map.empty(STORAGE_KEY \<mapsto> PendingBlob [pending_h1]) \<rparr>))
     = Map.empty(js ''planit_saved_data_1'' \<mapsto> SavedBlob (savedDataPayload 1 Map.empty),
                 js ''planit_saved_data'' \<mapsto> SavedBlob (savedDataPayload 1 Map.empty),
                 STORAGE_KEY := None, CURRENT_KEY := None)
   \<and> pendingItems (handleSaveAllToItinerary iso_runtime (price_probe [100])
       (three_nights_state \<lparr> pendingItems := [pending_h1],
                              localStorage := Map.empty(STORAGE_KEY \<mapsto> PendingBlob [pending_h1]) \<rparr>)) = []"
proof -
  let ?st = "three_nights_state \<lparr> pendingItems := [pending_h1],
                              localStorage := Map.empty(STORAGE_KEY \<mapsto> PendingBlob [pending_h1]) \<rparr>"
  have a: "pendingItems ?st \<noteq> []" by simp
  have b: "ensureItinerary iso_runtime (price_probe [100]) (?st \<lparr> adding := True, error := [] \<rparr>)
             = Inr (1, ?st \<lparr> adding := True, error := [] \<rparr>)"
    by (simp add: ensureItinerary_def three_nights_state_def fresh_state_def)
  have c: "post_save (price_probe [100]) 1 (save_flights (pendingItems ?st)) (save_items (pendingItems ?st))
             = Resolved Map.empty"
    by (simp add: price_probe_def no_backend_def save_items_def save_item_def pending_h1_def
          hotel_h1_facts Let_def or_n_def or_num_def truthy_n_def)
  have k: "saved_data_key 1 = js ''planit_saved_data_1''"
    by (simp add: saved_data_key_def String_int_def String_nat.simps js_def)
  from checkout_success_persists_and_clears [OF a b c refl]
  have p: "pendingItems (handleSaveAllToItinerary iso_runtime (price_probe [100]) ?st) = []"
    by simp
  have l: "localStorage (handleSaveAllToItinerary iso_runtime (price_probe [100]) ?st)
     = Map.empty(js ''planit_saved_data_1'' \<mapsto> SavedBlob (savedDataPayload 1 Map.empty),
                 js ''planit_saved_data'' \<mapsto> SavedBlob (savedDataPayload 1 Map.empty),
                 STORAGE_KEY := None, CURRENT_KEY := None)"
    unfolding handleSave_resolved [OF a b c] k
    by (simp add: clearPendingItems_def three_nights_state_def fresh_state_def)
  from p l show ?thesis by simp
qed

end
